theory Spec2Isabelle
  imports Main
begin

section \<open>Python values used by the pipeline\<close>

text \<open>
  The source is Python. Its strings are sequences of code points; the model covers the
  code points below 256, one \<^typ>\<open>char\<close> each (so \<open>CHR 0xF3\<close> is the letter o with an
  acute accent and \<open>CHR 0xBA\<close> the masculine ordinal sign). Unbounded integers are
  \<^typ>\<open>int\<close>. Every exception that the modelled code can raise is a value of \<open>error\<close>;
  \<open>Excepcion\<close> stands for whatever an external service (the language model, the network)
  raises.
\<close>

datatype error =
  IndexError | TypeError | AttributeError | ValueError | ZeroDivisionError | Excepcion string

text \<open>
  A reference is a dictionary decoded from the JSON that a language model wrote. A key
  can be absent, present with the value \<open>null\<close>, or present with a value; the source
  reads keys in two ways that differ exactly on \<open>null\<close>, so the three cases are kept
  apart.
\<close>

datatype 'a campo = Ausente | Nulo | Valor 'a

definition get_con_defecto :: "'a campo \<Rightarrow> 'a \<Rightarrow> 'a option" where
  \<comment> \<open>\<open>d.get(k, defecto)\<close>: the default replaces an absent key only; \<open>None\<close> is Python's \<open>None\<close>.\<close>
  "get_con_defecto c d = (case c of Ausente \<Rightarrow> Some d | Nulo \<Rightarrow> None | Valor v \<Rightarrow> Some v)"

definition get_o_vacio :: "string campo \<Rightarrow> string" where
  \<comment> \<open>\<open>(d.get(k) or '')\<close>\<close>
  "get_o_vacio c = (case c of Valor s \<Rightarrow> s | _ \<Rightarrow> [])"

definition minuscula :: "char \<Rightarrow> char" where
  "minuscula c =
     (let n = (of_char c :: nat)
      in if (65 \<le> n \<and> n \<le> 90) \<or> (192 \<le> n \<and> n \<le> 222 \<and> n \<noteq> 215)
         then char_of (n + 32) else c)"

definition lower :: "string \<Rightarrow> string" where
  "lower s = map minuscula s"

definition es_espacio :: "char \<Rightarrow> bool" where
  \<comment> \<open>what \<open>str.strip()\<close> removes and \<open>\<bsol>s\<close> matches, below code point 256\<close>
  "es_espacio c =
     (let n = (of_char c :: nat)
      in (9 \<le> n \<and> n \<le> 13) \<or> (28 \<le> n \<and> n \<le> 32) \<or> n = 133 \<or> n = 160)"

definition strip :: "string \<Rightarrow> string" where
  "strip s = rev (dropWhile es_espacio (rev (dropWhile es_espacio s)))"

record metadata =
  encontrado_por :: string
  md_ronda :: nat

record metadata_validacion =
  mv_validada :: "bool option"
  mv_motivo :: "string option"
  mv_boe_id :: "string option"
  mv_boe_url :: "string option"
  mv_articulo_formato_valido :: "bool option"
  mv_articulo_verificado_boe :: "bool option"
  mv_articulo_existe_boe :: "bool option option"
  mv_articulo_texto_oficial :: "string option option"
  mv_error_verificacion :: "string option"

record referencia =
  texto_completo :: "string campo"
  tipo :: "string campo"
  ley :: "string campo"
  ley_normalizada :: "string campo"
  ley_titulo_completo :: "string campo"
  articulo :: "string campo"
  confianza :: "int campo"
  boe_id :: "string campo"
  texto_oficial_boe :: "string option campo"
  ref_metadata :: "metadata option"
  ref_validada :: "bool option"
  ref_metadata_validacion :: "metadata_validacion option"

section \<open>Confidence filters\<close>

text \<open>
  \<open>SistemaConvergencia._filtrar_por_confianza\<close> keeps
  \<open>ref.get('confianza', 100) >= self.umbral_confianza_minima\<close>; the filter after
  validation in \<open>PipelineOptimizado.procesar_tema\<close> keeps
  \<open>ref.get('confianza', 0) >= self.umbral_confianza\<close>. Comparing \<open>None\<close> with an
  integer raises \<open>TypeError\<close>, which ends the list comprehension.
\<close>

fun filtrar_confianza :: "int \<Rightarrow> int \<Rightarrow> referencia list \<Rightarrow> error + referencia list" where
  "filtrar_confianza defecto umbral [] = Inr []"
| "filtrar_confianza defecto umbral (r # rs) =
     (case get_con_defecto (confianza r) defecto of
        None \<Rightarrow> Inl TypeError
      | Some c \<Rightarrow>
          (case filtrar_confianza defecto umbral rs of
             Inl e \<Rightarrow> Inl e
           | Inr rs' \<Rightarrow> Inr (if c \<ge> umbral then r # rs' else rs')))"

definition filtrar_por_confianza :: "int \<Rightarrow> referencia list \<Rightarrow> error + referencia list" where
  "filtrar_por_confianza umbral_confianza_minima referencias =
     filtrar_confianza 100 umbral_confianza_minima referencias"

definition filtrar_por_umbral_final :: "int \<Rightarrow> referencia list \<Rightarrow> error + referencia list" where
  "filtrar_por_umbral_final umbral_confianza referencias_validadas =
     filtrar_confianza 0 umbral_confianza referencias_validadas"

definition confianza_informada :: "referencia \<Rightarrow> int option" where
  \<comment> \<open>the confidence the report prints: \<open>ref.get('confianza', 0)\<close>\<close>
  "confianza_informada r = get_con_defecto (confianza r) 0"

text \<open>Default arguments of the two constructors and of \<open>procesar_tema\<close>.\<close>

record sistema_convergencia =
  max_rondas :: int
  umbral_confianza_minima :: int
  parallel :: bool

definition SistemaConvergencia ::
  "int option \<Rightarrow> int option \<Rightarrow> bool option \<Rightarrow> sistema_convergencia" where
  "SistemaConvergencia mr uc par =
     \<lparr>max_rondas = (case mr of None \<Rightarrow> 7 | Some m \<Rightarrow> m),
      umbral_confianza_minima = (case uc of None \<Rightarrow> 60 | Some u \<Rightarrow> u),
      parallel = (case par of None \<Rightarrow> True | Some p \<Rightarrow> p)\<rparr>"

definition procesar_tema_umbral_confianza :: "int option \<Rightarrow> int" where
  \<comment> \<open>the parameter \<open>umbral_confianza: int = 70\<close> of \<open>procesar_tema\<close>\<close>
  "procesar_tema_umbral_confianza uc = (case uc of None \<Rightarrow> 70 | Some u \<Rightarrow> u)"

lemma filtrar_confianza_filter:
  "filtrar_confianza d u rs = Inr out \<Longrightarrow>
     out = filter (\<lambda>r. \<exists>c. get_con_defecto (confianza r) d = Some c \<and> u \<le> c) rs"
  by (induction rs arbitrary: out) (auto split: option.splits sum.splits if_splits)

lemma filtrar_confianza_total:
  "(\<forall>r \<in> set rs. confianza r \<noteq> Nulo) \<Longrightarrow> \<exists>out. filtrar_confianza d u rs = Inr out"
  by (induction rs) (auto simp: get_con_defecto_def split: campo.splits)

text \<open>
  Claim C5. Every reference that survives the final filter has a reported confidence at
  least the configured threshold, whose default is 70; every reference that survives the
  extraction-stage filter and carries a confidence has it at least that filter's
  threshold, whose default is 60; both filters keep exactly the references that pass,
  in order, and they return whenever no confidence is \<open>null\<close>.
\<close>

theorem C5_filtros_de_confianza:
  "(filtrar_por_umbral_final umbral refs = Inr informe \<longrightarrow>
      (\<forall>r \<in> set informe. \<exists>c. confianza_informada r = Some c \<and> umbral \<le> c) \<and>
      (\<forall>r \<in> set refs. \<forall>c. confianza r = Valor c \<and> c < umbral \<longrightarrow> r \<notin> set informe) \<and>
      set informe \<subseteq> set refs) \<and>
   (filtrar_por_confianza umbral_min refs = Inr extraidas \<longrightarrow>
      (\<forall>r \<in> set extraidas. \<forall>c. confianza r = Valor c \<longrightarrow> umbral_min \<le> c) \<and>
      (\<forall>r \<in> set refs. \<forall>c. confianza r = Valor c \<and> c < umbral_min \<longrightarrow> r \<notin> set extraidas) \<and>
      set extraidas \<subseteq> set refs) \<and>
   ((\<forall>r \<in> set refs. confianza r \<noteq> Nulo) \<longrightarrow>
      (\<exists>a b. filtrar_por_umbral_final umbral refs = Inr a \<and>
             filtrar_por_confianza umbral_min refs = Inr b)) \<and>
   procesar_tema_umbral_confianza None = 70 \<and>
   umbral_confianza_minima (SistemaConvergencia None None None) = 60"
proof -
  have fin: "filtrar_por_umbral_final umbral refs = Inr informe \<Longrightarrow>
      (\<forall>r \<in> set informe. \<exists>c. confianza_informada r = Some c \<and> umbral \<le> c) \<and>
      (\<forall>r \<in> set refs. \<forall>c. confianza r = Valor c \<and> c < umbral \<longrightarrow> r \<notin> set informe) \<and>
      set informe \<subseteq> set refs"
    unfolding filtrar_por_umbral_final_def confianza_informada_def
    by (drule filtrar_confianza_filter) (auto simp: get_con_defecto_def)
  have ext: "filtrar_por_confianza umbral_min refs = Inr extraidas \<Longrightarrow>
      (\<forall>r \<in> set extraidas. \<forall>c. confianza r = Valor c \<longrightarrow> umbral_min \<le> c) \<and>
      (\<forall>r \<in> set refs. \<forall>c. confianza r = Valor c \<and> c < umbral_min \<longrightarrow> r \<notin> set extraidas) \<and>
      set extraidas \<subseteq> set refs"
    unfolding filtrar_por_confianza_def
    by (drule filtrar_confianza_filter) (auto simp: get_con_defecto_def)
  have tot: "(\<forall>r \<in> set refs. confianza r \<noteq> Nulo) \<Longrightarrow>
      (\<exists>a b. filtrar_por_umbral_final umbral refs = Inr a \<and>
             filtrar_por_confianza umbral_min refs = Inr b)"
    unfolding filtrar_por_umbral_final_def filtrar_por_confianza_def
    using filtrar_confianza_total [of refs 0 umbral]
          filtrar_confianza_total [of refs 100 umbral_min] by blast
  show ?thesis
    using fin ext tot
    by (simp add: procesar_tema_umbral_confianza_def SistemaConvergencia_def)
qed

definition referencia_vacia :: referencia where
  \<comment> \<open>the empty dictionary \<open>{}\<close>\<close>
  "referencia_vacia =
     \<lparr>texto_completo = Ausente, tipo = Ausente, ley = Ausente, ley_normalizada = Ausente,
      ley_titulo_completo = Ausente, articulo = Ausente, confianza = Ausente,
      boe_id = Ausente, texto_oficial_boe = Ausente, ref_metadata = None,
      ref_validada = None, ref_metadata_validacion = None\<rparr>"

theorem C5_filtros_de_confianza_witness:
  "filtrar_por_umbral_final 70
      [referencia_vacia\<lparr>confianza := Valor 80\<rparr>, referencia_vacia\<lparr>confianza := Valor 65\<rparr>,
       referencia_vacia]
     = Inr [referencia_vacia\<lparr>confianza := Valor 80\<rparr>] \<and>
   confianza_informada (referencia_vacia\<lparr>confianza := Valor 80\<rparr>) = Some 80 \<and>
   filtrar_por_confianza 60
      [referencia_vacia\<lparr>confianza := Valor 80\<rparr>, referencia_vacia\<lparr>confianza := Valor 65\<rparr>,
       referencia_vacia]
     = Inr [referencia_vacia\<lparr>confianza := Valor 80\<rparr>, referencia_vacia\<lparr>confianza := Valor 65\<rparr>,
            referencia_vacia] \<and>
   referencia_vacia\<lparr>confianza := Valor 65\<rparr>
     \<notin> set [referencia_vacia\<lparr>confianza := Valor 80\<rparr>]"
  using C5_filtros_de_confianza
    [of 70 "[referencia_vacia\<lparr>confianza := Valor 80\<rparr>,
             referencia_vacia\<lparr>confianza := Valor 65\<rparr>, referencia_vacia]"
        "[referencia_vacia\<lparr>confianza := Valor 80\<rparr>]" 60
        "[referencia_vacia\<lparr>confianza := Valor 80\<rparr>,
          referencia_vacia\<lparr>confianza := Valor 65\<rparr>, referencia_vacia]"]
  by (simp add: filtrar_por_umbral_final_def filtrar_por_confianza_def get_con_defecto_def
        referencia_vacia_def confianza_informada_def)

section \<open>Extractor agents and the convergence engine\<close>

text \<open>
  \<open>ExtractorAgentA/B/C.procesar\<close> wrap the call to the language model, the decoding of its
  answer and the agent's own duplicate filter in one \<open>try\<close>; \<open>except Exception\<close> turns any
  failure into an empty batch. The body of the \<open>try\<close> is a parameter of the model: it
  either raises or yields the batch \<open>referencias_nuevas\<close>.
\<close>

record entrada =
  e_texto :: string
  e_ronda :: nat
  e_referencias_previas :: "referencia list"

record resultado_agente =
  ra_referencias :: "referencia list"
  ra_total :: nat
  ra_agente :: string
  ra_ronda :: nat
  ra_error :: "error option"

type_synonym extractor = "entrada \<Rightarrow> error + referencia list"

definition procesar :: "string \<Rightarrow> extractor \<Rightarrow> entrada \<Rightarrow> resultado_agente" where
  "procesar nombre cuerpo e =
     (case cuerpo e of
        Inr referencias_nuevas \<Rightarrow>
          \<lparr>ra_referencias = referencias_nuevas, ra_total = length referencias_nuevas,
           ra_agente = nombre, ra_ronda = e_ronda e, ra_error = None\<rparr>
      | Inl ex \<Rightarrow>
          \<lparr>ra_referencias = [], ra_total = 0, ra_agente = nombre, ra_ronda = e_ronda e,
           ra_error = Some ex\<rparr>)"

definition nombre_a :: string where "nombre_a = ''Agente1A-Conservador''"
definition nombre_b :: string where "nombre_b = ''Agente1B-Agresivo''"
definition nombre_c :: string where "nombre_c = ''Agente1C-Sabueso''"

text \<open>
  What the \<open>try\<close> of \<open>_deduplicar_con_ia\<close> can do: raise (\<open>IA_falla\<close>), return an answer
  that \<open>_parsear_respuesta_deduplicacion\<close> cannot decode (\<open>IA_ilegible\<close>, every index is
  kept), or return the integers under \<open>indices_unicos\<close>.
\<close>

datatype respuesta_ia = IA_falla error | IA_ilegible | IA_indices "int list"

record oraculos =
  agente_a :: extractor
  agente_b :: extractor
  agente_c :: extractor
  ia_dedup :: "nat \<Rightarrow> referencia list \<Rightarrow> respuesta_ia"

definition clave_texto :: "referencia \<Rightarrow> string" where
  \<comment> \<open>\<open>(ref.get('texto_completo') or '').lower().strip()\<close>\<close>
  "clave_texto r = strip (lower (get_o_vacio (texto_completo r)))"

definition clave_ley :: "referencia \<Rightarrow> string" where
  \<comment> \<open>\<open>(ref.get('ley') or '').lower().strip()\<close>\<close>
  "clave_ley r = strip (lower (get_o_vacio (ley r)))"

definition es_duplicado :: "referencia list \<Rightarrow> referencia \<Rightarrow> bool" where
  "es_duplicado referencias_totales referencia =
     (\<exists>ref_existente \<in> set referencias_totales.
        (clave_texto referencia \<noteq> [] \<and> clave_texto referencia = clave_texto ref_existente) \<or>
        (clave_ley referencia \<noteq> [] \<and> clave_ley referencia = clave_ley ref_existente))"

text \<open>
  The dictionaries of one round are shared: the lists the agents returned, the list
  after deduplication and \<open>referencias_totales\<close> hold the same objects, and stamping
  \<open>ref['_metadata']\<close> changes the object wherever it is held. The round therefore works
  on a store \<open>m\<close>, the concatenation of the three batches, and on positions in it.
\<close>

fun deduplicar_simple_desde ::
  "referencia list \<Rightarrow> string list \<Rightarrow> nat list \<Rightarrow> error + nat list" where
  "deduplicar_simple_desde m textos_vistos [] = Inr []"
| "deduplicar_simple_desde m textos_vistos (p # ps) =
     (case get_con_defecto (texto_completo (m ! p)) [] of
        None \<Rightarrow> Inl AttributeError
      | Some t \<Rightarrow>
          (let texto = strip (lower t)
           in if texto \<noteq> [] \<and> texto \<notin> set textos_vistos
              then (case deduplicar_simple_desde m (texto # textos_vistos) ps of
                      Inl e \<Rightarrow> Inl e
                    | Inr unicas \<Rightarrow> Inr (p # unicas))
              else deduplicar_simple_desde m textos_vistos ps))"

definition deduplicar_simple :: "referencia list \<Rightarrow> nat list \<Rightarrow> error + nat list" where
  "deduplicar_simple m ps = deduplicar_simple_desde m [] ps"

definition deduplicar_con_ia ::
  "referencia list \<Rightarrow> (referencia list \<Rightarrow> respuesta_ia) \<Rightarrow> nat list \<Rightarrow> error + nat list" where
  "deduplicar_con_ia m ia ps =
     (if length ps \<le> 1 then Inr ps
      else (case ia (map (nth m) ps) of
              IA_falla e \<Rightarrow> deduplicar_simple m ps
            | IA_ilegible \<Rightarrow> Inr ps
            | IA_indices indices \<Rightarrow>
                Inr (map (\<lambda>i. ps ! nat i)
                       (filter (\<lambda>i. 0 \<le> i \<and> i < int (length ps)) indices))))"

definition deduplicar_semanticamente ::
  "referencia list \<Rightarrow> (referencia list \<Rightarrow> respuesta_ia) \<Rightarrow> nat list \<Rightarrow> error + nat list" where
  "deduplicar_semanticamente m ia ps =
     (if length ps \<le> 1 then Inr ps
      else if length ps \<le> 20 then deduplicar_con_ia m ia ps
      else (case deduplicar_simple m ps of
              Inl e \<Rightarrow> Inl e
            | Inr unicas_simples \<Rightarrow>
                if length unicas_simples > 20 then Inr unicas_simples
                else deduplicar_con_ia m ia unicas_simples))"

fun agregar_nuevas ::
  "nat \<Rightarrow> nat \<Rightarrow> nat \<Rightarrow> referencia list \<Rightarrow> nat list \<Rightarrow>
   referencia list \<times> nat list \<Rightarrow> referencia list \<times> nat list" where
  "agregar_nuevas la lb numero_ronda previas [] (m, nuevas) = (m, nuevas)"
| "agregar_nuevas la lb numero_ronda previas (p # ps) (m, nuevas) =
     (let ref = m ! p;
          agente = (if ref \<in> set (take la m) then nombre_a
                    else if ref \<in> set (take lb (drop la m)) then nombre_b
                    else nombre_c)
      in if \<not> es_duplicado (previas @ map (nth m) nuevas) ref
         then agregar_nuevas la lb numero_ronda previas ps
                (m[p := ref\<lparr>ref_metadata :=
                            Some \<lparr>encontrado_por = agente, md_ronda = numero_ronda\<rparr>\<rparr>],
                 nuevas @ [p])
         else agregar_nuevas la lb numero_ronda previas ps (m, nuevas))"

record resultado_ronda =
  rr_ronda :: nat
  rr_resultado_agente_a :: resultado_agente
  rr_resultado_agente_b :: resultado_agente
  rr_resultado_agente_c :: resultado_agente
  rr_total_candidatas :: nat
  rr_referencias_unicas :: nat
  rr_referencias_nuevas :: int
  rr_total_acumuladas :: nat
  rr_convergencia_alcanzada :: bool

text \<open>
  \<open>_ejecutar_ronda\<close>. Both branches of \<open>if self.parallel\<close> call the three \<open>procesar\<close> on
  the same \<open>entrada\<close> and differ in scheduling only. The function returns the new
  \<open>referencias_totales\<close> together with the round's dictionary, or with the exception
  that left the round (then nothing was appended). The time stamp is not modelled.
\<close>

definition ejecutar_ronda ::
  "oraculos \<Rightarrow> string \<Rightarrow> nat \<Rightarrow> referencia list \<Rightarrow>
   referencia list \<times> (error + resultado_ronda)" where
  "ejecutar_ronda ora texto numero_ronda referencias_totales =
     (let ent = \<lparr>e_texto = texto, e_ronda = numero_ronda,
                 e_referencias_previas = referencias_totales\<rparr>;
          total_antes = length referencias_totales;
          resultado_a = procesar nombre_a (agente_a ora) ent;
          resultado_b = procesar nombre_b (agente_b ora) ent;
          resultado_c = procesar nombre_c (agente_c ora) ent;
          la = length (ra_referencias resultado_a);
          lb = length (ra_referencias resultado_b);
          referencias_ronda = ra_referencias resultado_a @ ra_referencias resultado_b @
                              ra_referencias resultado_c
      in case deduplicar_semanticamente referencias_ronda (ia_dedup ora numero_ronda)
                [0..<length referencias_ronda] of
           Inl e \<Rightarrow> (referencias_totales, Inl e)
         | Inr referencias_unicas \<Rightarrow>
             (let (m, nuevas) = agregar_nuevas la lb numero_ronda referencias_totales
                                  referencias_unicas (referencias_ronda, []);
                  totales = referencias_totales @ map (nth m) nuevas;
                  total_despues = length totales;
                  referencias_realmente_nuevas = int total_despues - int total_antes
              in (totales,
                  Inr \<lparr>rr_ronda = numero_ronda,
                       rr_resultado_agente_a = resultado_a\<lparr>ra_referencias := take la m\<rparr>,
                       rr_resultado_agente_b =
                         resultado_b\<lparr>ra_referencias := take lb (drop la m)\<rparr>,
                       rr_resultado_agente_c =
                         resultado_c\<lparr>ra_referencias := drop (la + lb) m\<rparr>,
                       rr_total_candidatas = length referencias_ronda,
                       rr_referencias_unicas = length referencias_unicas,
                       rr_referencias_nuevas = referencias_realmente_nuevas,
                       rr_total_acumuladas = total_despues,
                       rr_convergencia_alcanzada = (referencias_realmente_nuevas = 0)\<rparr>)))"

text \<open>
  The loop \<open>for ronda in range(1, self.max_rondas + 1)\<close> of \<open>ejecutar\<close>, with its \<open>break\<close>.
  It returns the object's state (\<open>referencias_totales\<close>, \<open>historial_rondas\<close>) and the
  exception that ended it, if one did.
\<close>

fun bucle_rondas ::
  "oraculos \<Rightarrow> string \<Rightarrow> nat \<Rightarrow> nat \<Rightarrow> referencia list \<times> resultado_ronda list \<Rightarrow>
   (referencia list \<times> resultado_ronda list) \<times> error option" where
  "bucle_rondas ora texto 0 ronda estado = (estado, None)"
| "bucle_rondas ora texto (Suc k) ronda (totales, historial) =
     (case ejecutar_ronda ora texto ronda totales of
        (totales', Inl e) \<Rightarrow> ((totales', historial), Some e)
      | (totales', Inr resultado_ronda) \<Rightarrow>
          if rr_convergencia_alcanzada resultado_ronda
          then ((totales', historial @ [resultado_ronda]), None)
          else bucle_rondas ora texto k (Suc ronda) (totales', historial @ [resultado_ronda]))"

record resultado_convergencia =
  rc_referencias :: "referencia list"
  rc_total_referencias :: nat
  rc_total_rondas :: nat
  rc_convergencia_alcanzada :: bool
  rc_historial :: "resultado_ronda list"

definition ejecutar ::
  "sistema_convergencia \<Rightarrow> oraculos \<Rightarrow> string \<Rightarrow>
   (referencia list \<times> resultado_ronda list) \<times> (error + resultado_convergencia)" where
  "ejecutar sis ora texto =
     (case bucle_rondas ora texto (nat (max_rondas sis)) 1 ([], []) of
        (estado, Some e) \<Rightarrow> (estado, Inl e)
      | ((referencias_totales, historial_rondas), None) \<Rightarrow>
          ((referencias_totales, historial_rondas),
           (case filtrar_por_confianza (umbral_confianza_minima sis) referencias_totales of
              Inl e \<Rightarrow> Inl e
            | Inr referencias_filtradas \<Rightarrow>
                if historial_rondas = [] then Inl IndexError
                else Inr \<lparr>rc_referencias = referencias_filtradas,
                          rc_total_referencias = length referencias_filtradas,
                          rc_total_rondas = length historial_rondas,
                          rc_convergencia_alcanzada =
                            rr_convergencia_alcanzada (last historial_rondas),
                          rc_historial = historial_rondas\<rparr>)))"

subsection \<open>Invariants of the round and of the loop\<close>

definition claves_ok :: "referencia list \<Rightarrow> bool" where
  "claves_ok refs =
     (distinct (filter (\<lambda>s. s \<noteq> []) (map clave_texto refs)) \<and>
      distinct (filter (\<lambda>s. s \<noteq> []) (map clave_ley refs)))"



definition ej_art24_a :: referencia where
  "ej_art24_a = referencia_vacia\<lparr>texto_completo := Valor ''art. 24'', articulo := Valor ''24'',
                   confianza := Valor 95\<rparr>"

definition ej_art24_b :: referencia where
  "ej_art24_b = referencia_vacia\<lparr>texto_completo := Valor (''art'' @ [CHR 0xED] @ ''culo 24''),
                   articulo := Valor ''24'', confianza := Valor 95\<rparr>"

definition ej_lpac :: referencia where
  "ej_lpac = referencia_vacia\<lparr>texto_completo := Valor ''LPAC'', ley := Valor ''LPAC'',
                boe_id := Valor ''BOE-A-2015-10565'', confianza := Valor 100\<rparr>"

definition ej_ley39 :: referencia where
  "ej_ley39 = referencia_vacia\<lparr>texto_completo := Valor ''Ley 39/2015'', ley := Valor ''Ley 39/2015'',
                boe_id := Valor ''BOE-A-2015-10565'', confianza := Valor 100\<rparr>"

definition ej_oraculos :: oraculos where
  "ej_oraculos =
     \<lparr>agente_a = (\<lambda>e. if e_ronda e = 1 then Inr [ej_art24_a, ej_lpac] else Inr []),
      agente_b = (\<lambda>e. if e_ronda e = 1 then Inr [ej_art24_b, ej_ley39] else Inr []),
      agente_c = (\<lambda>e. Inl (Excepcion ''timeout'')),
      ia_dedup = (\<lambda>n refs. IA_falla AttributeError)\<rparr>"


lemma claves_ok_append1:
  "claves_ok xs \<Longrightarrow> \<not> es_duplicado xs r \<Longrightarrow> claves_ok (xs @ [r])"
  by (auto simp: claves_ok_def es_duplicado_def)

lemma clave_texto_sello:
  "clave_texto (m[p := (m ! p)\<lparr>ref_metadata := x\<rparr>] ! q) = clave_texto (m ! q)"
  by (cases "p < length m"; cases "q = p"; simp add: clave_texto_def list_update_beyond not_less)

lemma clave_ley_sello:
  "clave_ley (m[p := (m ! p)\<lparr>ref_metadata := x\<rparr>] ! q) = clave_ley (m ! q)"
  by (cases "p < length m"; cases "q = p"; simp add: clave_ley_def list_update_beyond not_less)

lemma claves_ok_cong:
  "map clave_texto xs = map clave_texto ys \<Longrightarrow> map clave_ley xs = map clave_ley ys \<Longrightarrow>
   claves_ok xs = claves_ok ys"
  by (simp add: claves_ok_def)

lemma agregar_nuevas_inv:
  "agregar_nuevas la lb n previas ps (m, nv) = (m', nv') \<Longrightarrow>
   claves_ok (previas @ map (nth m) nv) \<Longrightarrow>
   claves_ok (previas @ map (nth m') nv') \<and> (\<exists>extra. nv' = nv @ extra) \<and> length m' = length m"
proof (induction ps arbitrary: m nv)
  case Nil
  then show ?case by simp
next
  case (Cons p ps)
  let ?ref = "m ! p"
  show ?case
  proof (cases "es_duplicado (previas @ map (nth m) nv) ?ref")
    case True
    with Cons.prems have "agregar_nuevas la lb n previas ps (m, nv) = (m', nv')"
      by (simp add: Let_def)
    from Cons.IH [OF this Cons.prems(2)] show ?thesis .
  next
    case False
    define ag where "ag = (if ?ref \<in> set (take la m) then nombre_a
                    else if ?ref \<in> set (take lb (drop la m)) then nombre_b
                    else nombre_c)"
    define m2 where "m2 = m[p := ?ref\<lparr>ref_metadata := Some \<lparr>encontrado_por = ag, md_ronda = n\<rparr>\<rparr>]"
    from False Cons.prems(1) have step: "agregar_nuevas la lb n previas ps (m2, nv @ [p]) = (m', nv')"
      by (simp add: Let_def m2_def ag_def)
    have kt: "map clave_texto (previas @ map (nth m2) (nv @ [p])) = map clave_texto ((previas @ map (nth m) nv) @ [?ref])"
      by (simp add: m2_def clave_texto_sello)
    have kl: "map clave_ley (previas @ map (nth m2) (nv @ [p])) = map clave_ley ((previas @ map (nth m) nv) @ [?ref])"
      by (simp add: m2_def clave_ley_sello)
    have "claves_ok ((previas @ map (nth m) nv) @ [?ref])"
      using claves_ok_append1 [OF Cons.prems(2) False] .
    then have ok2: "claves_ok (previas @ map (nth m2) (nv @ [p]))"
      using claves_ok_cong [OF kt kl] by simp
    from Cons.IH [OF step ok2] show ?thesis by (auto simp: m2_def)
  qed
qed

lemma ejecutar_ronda_inv:
  assumes "ejecutar_ronda ora t n tot = (tot', r)"
  shows "\<exists>nv. tot' = tot @ nv \<and> (claves_ok tot \<longrightarrow> claves_ok tot') \<and>
           (case r of Inl e \<Rightarrow> nv = []
            | Inr rr \<Rightarrow> rr_referencias_nuevas rr = int (length nv) \<and>
                        rr_convergencia_alcanzada rr = (nv = []) \<and>
                        rr_total_acumuladas rr = length tot' \<and> rr_ronda rr = n)"
proof -
  define ent where "ent = \<lparr>e_texto = t, e_ronda = n, e_referencias_previas = tot\<rparr>"
  define ra where "ra = procesar nombre_a (agente_a ora) ent"
  define rb where "rb = procesar nombre_b (agente_b ora) ent"
  define rc where "rc = procesar nombre_c (agente_c ora) ent"
  define m0 where "m0 = ra_referencias ra @ ra_referencias rb @ ra_referencias rc"
  define d where "d = deduplicar_semanticamente m0 (ia_dedup ora n) [0..<length m0]"
  show ?thesis
  proof (cases d)
    case (Inl e)
    with assms have "tot' = tot" "r = Inl e"
      by (simp_all add: ejecutar_ronda_def Let_def d_def m0_def ra_def rb_def rc_def ent_def)
    then show ?thesis by simp
  next
    case (Inr us)
    obtain m nv where ag: "agregar_nuevas (length (ra_referencias ra)) (length (ra_referencias rb))
                              n tot us (m0, []) = (m, nv)"
      by (cases "agregar_nuevas (length (ra_referencias ra)) (length (ra_referencias rb))
                              n tot us (m0, [])") auto
    from assms Inr ag have t': "tot' = tot @ map (nth m) nv"
      by (simp add: ejecutar_ronda_def Let_def d_def m0_def ra_def rb_def rc_def ent_def)
    from assms Inr ag obtain rr where r: "r = Inr rr"
        and rr: "rr_referencias_nuevas rr = int (length (tot @ map (nth m) nv)) - int (length tot)"
                "rr_convergencia_alcanzada rr = (rr_referencias_nuevas rr = 0)"
                "rr_total_acumuladas rr = length (tot @ map (nth m) nv)" "rr_ronda rr = n"
      by (auto simp add: ejecutar_ronda_def Let_def d_def m0_def ra_def rb_def rc_def ent_def)
    have "claves_ok tot \<Longrightarrow> claves_ok tot'"
      using agregar_nuevas_inv [OF ag] t' by simp
    with t' r rr show ?thesis by auto
  qed
qed

lemma bucle_rondas_inv:
  "bucle_rondas ora t k ronda (tot, hist) = ((tot', hist'), err) \<Longrightarrow>
   length hist' \<le> length hist + k \<and> (\<exists>h. hist' = hist @ h) \<and>
   (claves_ok tot \<longrightarrow> claves_ok tot') \<and>
   (err = None \<and> length hist' < length hist + k \<longrightarrow>
      hist' \<noteq> [] \<and> rr_convergencia_alcanzada (last hist') \<and>
      rr_referencias_nuevas (last hist') = 0 \<and> rr_total_acumuladas (last hist') = length tot')"
proof (induction k arbitrary: ronda tot hist)
  case 0
  then show ?case by simp
next
  case (Suc k)
  obtain t1 r1 where er: "ejecutar_ronda ora t ronda tot = (t1, r1)"
    by (cases "ejecutar_ronda ora t ronda tot") auto
  from ejecutar_ronda_inv [OF er] obtain nv where nv: "t1 = tot @ nv"
     "claves_ok tot \<longrightarrow> claves_ok t1"
     "(case r1 of Inl e \<Rightarrow> nv = []
            | Inr rr \<Rightarrow> rr_referencias_nuevas rr = int (length nv) \<and>
                        rr_convergencia_alcanzada rr = (nv = []) \<and>
                        rr_total_acumuladas rr = length t1 \<and> rr_ronda rr = ronda)"
    by blast
  show ?case
  proof (cases r1)
    case (Inl e)
    with Suc.prems er have "tot' = t1" "hist' = hist" "err = Some e" by simp_all
    with nv show ?thesis by simp
  next
    case (Inr rr)
    show ?thesis
    proof (cases "rr_convergencia_alcanzada rr")
      case True
      with Suc.prems er Inr have "tot' = t1" "hist' = hist @ [rr]" "err = None" by simp_all
      with nv Inr True show ?thesis by simp
    next
      case False
      with Suc.prems er Inr
      have "bucle_rondas ora t k (Suc ronda) (t1, hist @ [rr]) = ((tot', hist'), err)" by simp
      from Suc.IH [OF this] nv show ?thesis by auto
    qed
  qed
qed

lemma distinct_filter_map_filter:
  "distinct (filter Q (map f xs)) \<Longrightarrow> distinct (filter Q (map f (filter P xs)))"
  by (induction xs) auto

lemma distinct_filter_map_nth:
  "distinct (filter Q (map f xs)) \<Longrightarrow> i < j \<Longrightarrow> j < length xs \<Longrightarrow> Q (f (xs ! i)) \<Longrightarrow>
   f (xs ! i) \<noteq> f (xs ! j)"
proof (induction xs arbitrary: i j)
  case Nil
  then show ?case by simp
next
  case (Cons x xs)
  show ?case
  proof (cases i)
    case 0
    with Cons.prems obtain j' where j': "j = Suc j'" "j' < length xs" by (cases j) auto
    with Cons.prems 0 have "f x \<notin> set (filter Q (map f xs))" by simp
    with Cons.prems 0 j' show ?thesis by (auto simp: image_iff)
  next
    case (Suc i')
    with Cons.prems obtain j' where j': "j = Suc j'" "j' < length xs" "i' < j'" by (cases j) auto
    with Cons.prems Suc have "distinct (filter Q (map f xs))" "Q (f (xs ! i'))"
      by (auto split: if_splits)
    from Cons.IH [OF this(1) j'(3) j'(2) this(2)] Suc j' show ?thesis by simp
  qed
qed









text \<open>
  Claim C2. For every text, \<open>ejecutar\<close> runs at most \<open>max_rondas\<close> rounds (none when
  \<open>max_rondas\<close> is not positive), also when an exception ends it; when it returns a result
  at least one round was run, and if fewer than \<open>max_rondas\<close> rounds were run then the
  last round added zero references to \<open>referencias_totales\<close>, which is the declared
  convergence. (\<open>ejecutar_ronda_inv\<close>: the count \<open>referencias_nuevas\<close> of a round is
  the number of references it appended.)
\<close>

theorem C2_convergencia_acotada:
  "ejecutar sis ora texto = ((totales, historial), resultado) \<Longrightarrow>
   int (length historial) \<le> max 0 (max_rondas sis) \<and>
   (\<forall>res. resultado = Inr res \<longrightarrow>
      rc_total_rondas res = length historial \<and> 1 \<le> rc_total_rondas res \<and>
      int (rc_total_rondas res) \<le> max_rondas sis \<and>
      (int (rc_total_rondas res) < max_rondas sis \<longrightarrow>
         rr_referencias_nuevas (last historial) = 0 \<and>
         rr_total_acumuladas (last historial) = length totales \<and>
         rc_convergencia_alcanzada res))"
proof -
  assume e: "ejecutar sis ora texto = ((totales, historial), resultado)"
  obtain err where b: "bucle_rondas ora texto (nat (max_rondas sis)) 1 ([], []) = ((totales, historial), err)"
    using e by (auto simp: ejecutar_def split: prod.splits option.splits)
  from bucle_rondas_inv [OF b] have
    len: "length historial \<le> nat (max_rondas sis)" and
    early: "err = None \<and> length historial < nat (max_rondas sis) \<longrightarrow>
      historial \<noteq> [] \<and> rr_convergencia_alcanzada (last historial) \<and>
      rr_referencias_nuevas (last historial) = 0 \<and>
      rr_total_acumuladas (last historial) = length totales"
    by simp_all
  have R: "\<And>res. resultado = Inr res \<Longrightarrow> err = None \<and> historial \<noteq> [] \<and>
        rc_total_rondas res = length historial \<and>
        rc_convergencia_alcanzada res = rr_convergencia_alcanzada (last historial)"
    using e b by (auto simp: ejecutar_def split: option.splits sum.splits if_splits)
  have cota: "int (length historial) \<le> max 0 (max_rondas sis)"
    using len by linarith
  have "rc_total_rondas res = length historial \<and> 1 \<le> rc_total_rondas res \<and>
      int (rc_total_rondas res) \<le> max_rondas sis \<and>
      (int (rc_total_rondas res) < max_rondas sis \<longrightarrow>
         rr_referencias_nuevas (last historial) = 0 \<and>
         rr_total_acumuladas (last historial) = length totales \<and>
         rc_convergencia_alcanzada res)" if r: "resultado = Inr res" for res
  proof -
    from R [OF r] have n: "err = None" "historial \<noteq> []"
      "rc_total_rondas res = length historial"
      "rc_convergencia_alcanzada res = rr_convergencia_alcanzada (last historial)"
      by simp_all
    from n(2) have pos: "1 \<le> length historial" by (cases historial) simp_all
    with len have m: "int (length historial) \<le> max_rondas sis" by linarith
    have "int (length historial) < max_rondas sis \<Longrightarrow> length historial < nat (max_rondas sis)"
      by linarith
    with early n pos m show ?thesis by simp
  qed
  with cota show ?thesis by blast
qed

theorem C2_convergencia_acotada_witness:
  "\<exists>totales historial res.
     ejecutar (SistemaConvergencia (Some 3) None None) ej_oraculos ''tema'' =
       ((totales, historial), Inr res) \<and>
     rc_total_rondas res = 2 \<and> length totales = 4 \<and>
     rr_referencias_nuevas (last historial) = 0 \<and> rc_convergencia_alcanzada res"
proof -
  obtain tot hist r where e:
    "ejecutar (SistemaConvergencia (Some 3) None None) ej_oraculos ''tema'' = ((tot, hist), r)"
    by (metis surj_pair)
  have ev: "length (snd (fst (ejecutar (SistemaConvergencia (Some 3) None None) ej_oraculos ''tema''))) = 2 \<and>
            length (fst (fst (ejecutar (SistemaConvergencia (Some 3) None None) ej_oraculos ''tema''))) = 4 \<and>
            isl (snd (ejecutar (SistemaConvergencia (Some 3) None None) ej_oraculos ''tema'')) = False \<and>
            max_rondas (SistemaConvergencia (Some 3) None None) = 3"
    by code_simp
  with e obtain res where r: "r = Inr res" and l: "length hist = 2" "length tot = 4"
     and m: "max_rondas (SistemaConvergencia (Some 3) None None) = 3"
    by (cases r) auto
  from C2_convergencia_acotada [OF e [unfolded r]] l m e r show ?thesis by auto
qed

text \<open>
  Claim C3, as amended. In the list that \<open>ejecutar\<close> returns, no two references have the
  same non-empty \<open>texto_completo\<close> after \<open>lower().strip()\<close>, and no two have the same
  non-empty \<open>ley\<close> after \<open>lower().strip()\<close>. (\<open>_es_duplicado\<close> compares these two keys only:
  it reads neither \<open>boe_id\<close> nor \<open>articulo\<close>.)
\<close>

theorem C3_claves_distintas:
  "ejecutar sis ora texto = (estado, Inr res) \<Longrightarrow>
   (\<forall>i j. i < j \<and> j < length (rc_referencias res) \<longrightarrow>
      (clave_texto (rc_referencias res ! i) \<noteq> [] \<longrightarrow>
         clave_texto (rc_referencias res ! i) \<noteq> clave_texto (rc_referencias res ! j)) \<and>
      (clave_ley (rc_referencias res ! i) \<noteq> [] \<longrightarrow>
         clave_ley (rc_referencias res ! i) \<noteq> clave_ley (rc_referencias res ! j)))"
proof -
  assume e: "ejecutar sis ora texto = (estado, Inr res)"
  obtain tot hist where b: "bucle_rondas ora texto (nat (max_rondas sis)) 1 ([], []) = ((tot, hist), None)"
     and f: "filtrar_por_confianza (umbral_confianza_minima sis) tot = Inr (rc_referencias res)"
    using e by (auto simp: ejecutar_def split: prod.splits option.splits sum.splits if_splits)
  have "claves_ok []" by (simp add: claves_ok_def)
  with bucle_rondas_inv [OF b] have ok: "claves_ok tot" by simp
  from f have "rc_referencias res =
      filter (\<lambda>r. \<exists>c. get_con_defecto (confianza r) 100 = Some c \<and> umbral_confianza_minima sis \<le> c) tot"
    unfolding filtrar_por_confianza_def by (rule filtrar_confianza_filter)
  with ok have d: "distinct (filter (\<lambda>s. s \<noteq> []) (map clave_texto (rc_referencias res)))"
                  "distinct (filter (\<lambda>s. s \<noteq> []) (map clave_ley (rc_referencias res)))"
    by (simp_all add: claves_ok_def distinct_filter_map_filter)
  show ?thesis
    using distinct_filter_map_nth [OF d(1)] distinct_filter_map_nth [OF d(2)] by blast
qed

theorem C3_claves_distintas_witness:
  "\<exists>estado res.
     ejecutar (SistemaConvergencia (Some 3) None None) ej_oraculos ''tema'' = (estado, Inr res) \<and>
     length (rc_referencias res) = 4 \<and>
     clave_texto (rc_referencias res ! 0) \<noteq> [] \<and>
     clave_texto (rc_referencias res ! 0) \<noteq> clave_texto (rc_referencias res ! 1) \<and>
     clave_ley (rc_referencias res ! 1) \<noteq> [] \<and>
     clave_ley (rc_referencias res ! 1) \<noteq> clave_ley (rc_referencias res ! 3)"
proof -
  have ev: "(case snd (ejecutar (SistemaConvergencia (Some 3) None None) ej_oraculos ''tema'') of
              Inl e \<Rightarrow> False
            | Inr res \<Rightarrow> length (rc_referencias res) = 4 \<and>
                clave_texto (rc_referencias res ! 0) \<noteq> [] \<and> clave_ley (rc_referencias res ! 1) \<noteq> [])"
    by code_simp
  then obtain estado res where e:
    "ejecutar (SistemaConvergencia (Some 3) None None) ej_oraculos ''tema'' = (estado, Inr res)"
    and l: "length (rc_referencias res) = 4" "clave_texto (rc_referencias res ! 0) \<noteq> []"
       "clave_ley (rc_referencias res ! 1) \<noteq> []"
    by (cases "ejecutar (SistemaConvergencia (Some 3) None None) ej_oraculos ''tema''")
       (auto split: sum.splits)
  from C3_claves_distintas [OF e] l have
     "clave_texto (rc_referencias res ! 0) \<noteq> clave_texto (rc_referencias res ! 1)"
     "clave_ley (rc_referencias res ! 1) \<noteq> clave_ley (rc_referencias res ! 3)"
    by simp_all
  with e l show ?thesis by blast
qed

text \<open>
  Claim C3 as stated fails: in the run below two surviving references carry no \<open>boe_id\<close>
  and have equal \<open>(ley, articulo)\<close> keys (no law, article 24), and two other surviving
  references carry the same \<open>boe_id\<close>.
\<close>

theorem C3_duplicados_semanticos_counterexample:
  "(case snd (ejecutar (SistemaConvergencia (Some 3) None None) ej_oraculos ''tema'') of
      Inl e \<Rightarrow> False
    | Inr res \<Rightarrow>
        rc_referencias res =
          [ej_art24_a\<lparr>ref_metadata := Some \<lparr>encontrado_por = nombre_a, md_ronda = 1\<rparr>\<rparr>,
           ej_lpac\<lparr>ref_metadata := Some \<lparr>encontrado_por = nombre_a, md_ronda = 1\<rparr>\<rparr>,
           ej_art24_b\<lparr>ref_metadata := Some \<lparr>encontrado_por = nombre_b, md_ronda = 1\<rparr>\<rparr>,
           ej_ley39\<lparr>ref_metadata := Some \<lparr>encontrado_por = nombre_b, md_ronda = 1\<rparr>\<rparr>] \<and>
        boe_id (rc_referencias res ! 0) = Ausente \<and> boe_id (rc_referencias res ! 2) = Ausente \<and>
        clave_ley (rc_referencias res ! 0) = clave_ley (rc_referencias res ! 2) \<and>
        articulo (rc_referencias res ! 0) = articulo (rc_referencias res ! 2) \<and>
        boe_id (rc_referencias res ! 1) = Valor ''BOE-A-2015-10565'' \<and>
        boe_id (rc_referencias res ! 3) = Valor ''BOE-A-2015-10565'')"
  by code_simp



section \<open>CELEX identifiers\<close>

text \<open>
  \<open>generar_celex\<close> of \<open>modules/eurlex_fetcher.py\<close> builds
  \<open>f"3{anio}{tipo_upper}{numero:04d}"\<close>. \<open>str_int\<close> is Python's \<open>str\<close> on an integer and
  \<open>formato_04d\<close> the format \<open>04d\<close>: the sign first, then zeros up to a total width of four,
  then the decimal digits. \<open>upper\<close> is \<open>str.upper\<close> on the modelled code points (the
  capitals of \<open>CHR 0xB5\<close> and \<open>CHR 0xFF\<close> lie above 255 and are left as they are; neither
  is one of the three kind letters).
\<close>

definition es_digito :: "char \<Rightarrow> bool" where
  "es_digito c = (let n = (of_char c :: nat) in 48 \<le> n \<and> n \<le> 57)"

definition digito :: "nat \<Rightarrow> char" where
  "digito d = char_of (48 + d)"

fun digitos :: "nat \<Rightarrow> string" where
  "digitos n = (if n < 10 then [digito n] else digitos (n div 10) @ [digito (n mod 10)])"

declare digitos.simps [simp del]

definition str_int :: "int \<Rightarrow> string" where
  "str_int i = (if i < 0 then CHR ''-'' # digitos (nat (- i)) else digitos (nat i))"

definition formato_04d :: "int \<Rightarrow> string" where
  "formato_04d i =
     (let signo = (if i < 0 then ''-'' else []);
          cifras = digitos (nat \<bar>i\<bar>)
      in signo @ replicate (4 - length signo - length cifras) (CHR ''0'') @ cifras)"

definition mayuscula :: "char \<Rightarrow> char" where
  "mayuscula c =
     (let n = (of_char c :: nat)
      in if (97 \<le> n \<and> n \<le> 122) \<or> (224 \<le> n \<and> n \<le> 254 \<and> n \<noteq> 247)
         then char_of (n - 32) else c)"

definition upper :: "string \<Rightarrow> string" where
  "upper s = concat (map (\<lambda>c. if c = CHR 0xDF then ''SS'' else [mayuscula c]) s)"

definition generar_celex :: "string \<Rightarrow> int \<Rightarrow> int \<Rightarrow> string" where
  "generar_celex tipo' anio numero =
     (let tipo_upper = upper tipo';
          tipo_upper = (if tipo_upper \<notin> set [''R'', ''L'', ''D''] then ''R'' else tipo_upper)
      in ''3'' @ str_int anio @ tipo_upper @ formato_04d numero)"

definition valor_digito :: "char \<Rightarrow> nat" where
  "valor_digito c = of_char c - 48"

definition valor_digitos :: "string \<Rightarrow> nat" where
  "valor_digitos s = foldl (\<lambda>acc c. 10 * acc + valor_digito c) 0 s"

text \<open>
  The repository has no reader of CELEX identifiers. \<open>analizar_celex_spec\<close> follows the
  specification's format \<open>3<YYYY><R|L|D><NNNN>\<close>: the sector digit 3, a year of exactly
  four digits, one kind letter, and the number, written with at least four digits.
\<close>

definition analizar_celex_spec :: "string \<Rightarrow> (string \<times> int \<times> int) option" where
  "analizar_celex_spec s =
     (case s of
        [] \<Rightarrow> None
      | sector # resto \<Rightarrow>
          (let anio = take 4 resto; letra = take 1 (drop 4 resto); numero = drop 5 resto
           in if sector = CHR ''3'' \<and> length anio = 4 \<and> list_all es_digito anio \<and>
                 letra \<in> set [''R'', ''L'', ''D''] \<and>
                 4 \<le> length numero \<and> list_all es_digito numero
              then Some (letra, int (valor_digitos anio), int (valor_digitos numero))
              else None))"

lemma es_digito_digito: "d < 10 \<Longrightarrow> es_digito (digito d)"
  by (simp add: es_digito_def digito_def)

lemma valor_digito_digito: "d < 10 \<Longrightarrow> valor_digito (digito d) = d"
  by (simp add: valor_digito_def digito_def)

lemma digitos_es_digito: "list_all es_digito (digitos n)"
  by (induction n rule: digitos.induct) (subst digitos.simps, simp add: es_digito_digito)

lemma valor_digitos_snoc: "valor_digitos (s @ [c]) = 10 * valor_digitos s + valor_digito c"
  by (simp add: valor_digitos_def)

lemma valor_digitos_digitos: "valor_digitos (digitos n) = n"
proof (induction n rule: digitos.induct)
  case (1 n)
  show ?case
  proof (cases "n < 10")
    case True
    then show ?thesis by (subst digitos.simps) (simp add: valor_digitos_def valor_digito_digito)
  next
    case False
    with 1 show ?thesis
      by (subst digitos.simps) (simp add: valor_digitos_snoc valor_digito_digito)
  qed
qed

lemma valor_digitos_ceros: "valor_digitos (replicate k (CHR ''0'') @ s) = valor_digitos s"
proof -
  have "foldl (\<lambda>acc c. 10 * acc + valor_digito c) 0 (replicate k (CHR ''0'')) = 0"
    by (induction k) (simp_all add: valor_digito_def)
  then show ?thesis by (simp add: valor_digitos_def)
qed

lemma length_digitos_4:
  assumes "1000 \<le> n" "n \<le> 9999"
  shows "length (digitos n) = 4"
proof -
  have a: "\<not> n < 10" "\<not> n div 10 < 10" "\<not> n div 10 div 10 < 10" "n div 10 div 10 div 10 < 10"
    using assms by simp_all
  show ?thesis
    by (subst digitos.simps, simp add: a, subst digitos.simps, simp add: a,
        subst digitos.simps, simp add: a, subst digitos.simps, simp add: a)
qed

lemma upper_RLD: "t \<in> set [''R'', ''L'', ''D''] \<Longrightarrow> upper t = t"
  by (auto simp: upper_def mayuscula_def)

text \<open>
  Claim C6. For every kind in R, L, D, every four-digit year and every act number
  (a non-negative integer), the synthesized CELEX is \<open>3\<close>, the four digits of the year,
  the kind letter and the number padded with zeros to at least four digits, and reading
  it back by the format of the specification gives the kind, the year and the number.
\<close>

theorem C6_celex_ida_y_vuelta:
  "tipo' \<in> set [''R'', ''L'', ''D''] \<and> 1000 \<le> anio \<and> anio \<le> 9999 \<and> 0 \<le> numero \<longrightarrow>
   generar_celex tipo' anio numero =
     ''3'' @ digitos (nat anio) @ tipo' @
     replicate (4 - length (digitos (nat numero))) (CHR ''0'') @ digitos (nat numero) \<and>
   length (digitos (nat anio)) = 4 \<and>
   4 \<le> length (replicate (4 - length (digitos (nat numero))) (CHR ''0'') @ digitos (nat numero)) \<and>
   analizar_celex_spec (generar_celex tipo' anio numero) = Some (tipo', anio, numero)"
proof (intro impI)
  assume h: "tipo' \<in> set [''R'', ''L'', ''D''] \<and> 1000 \<le> anio \<and> anio \<le> 9999 \<and> 0 \<le> numero"
  define ds where "ds = digitos (nat anio)"
  define ns where "ns = replicate (4 - length (digitos (nat numero))) (CHR ''0'') @ digitos (nat numero)"
  from h have l4: "length ds = 4" unfolding ds_def by (intro length_digitos_4) auto
  have g: "generar_celex tipo' anio numero = ''3'' @ ds @ tipo' @ ns"
    using h upper_RLD [of tipo']
    by (auto simp: generar_celex_def str_int_def formato_04d_def Let_def ds_def ns_def)
  have ln: "4 \<le> length ns" by (simp add: ns_def)
  have dn: "list_all es_digito ns"
    using digitos_es_digito [of "nat numero"] by (auto simp: ns_def list_all_iff es_digito_def)
  have vn: "valor_digitos ns = nat numero"
    by (simp add: ns_def valor_digitos_ceros valor_digitos_digitos)
  have vd: "valor_digitos ds = nat anio" by (simp add: ds_def valor_digitos_digitos)
  have t1: "length tipo' = 1" using h by auto
  have "analizar_celex_spec (''3'' @ ds @ tipo' @ ns) = Some (tipo', anio, numero)"
    using h l4 ln dn vn vd t1 digitos_es_digito [of "nat anio"]
    by (simp add: analizar_celex_spec_def Let_def ds_def [symmetric])
  with g l4 ln show "generar_celex tipo' anio numero =
     ''3'' @ digitos (nat anio) @ tipo' @
     replicate (4 - length (digitos (nat numero))) (CHR ''0'') @ digitos (nat numero) \<and>
   length (digitos (nat anio)) = 4 \<and>
   4 \<le> length (replicate (4 - length (digitos (nat numero))) (CHR ''0'') @ digitos (nat numero)) \<and>
   analizar_celex_spec (generar_celex tipo' anio numero) = Some (tipo', anio, numero)"
    by (simp add: ds_def ns_def)
qed

theorem C6_celex_ida_y_vuelta_witness:
  "''R'' \<in> set [''R'', ''L'', ''D''] \<and> (1000::int) \<le> 2016 \<and> (2016::int) \<le> 9999 \<and> (0::int) \<le> 679 \<and>
   generar_celex ''R'' 2016 679 = ''32016R0679'' \<and>
   analizar_celex_spec ''32016R0679'' = Some (''R'', 2016, 679)"
proof -
  have ev: "generar_celex ''R'' 2016 679 = ''32016R0679''" by code_simp
  have h: "''R'' \<in> set [''R'', ''L'', ''D''] \<and> (1000::int) \<le> 2016 \<and> (2016::int) \<le> 9999 \<and>
           (0::int) \<le> 679" by simp
  have "analizar_celex_spec (generar_celex ''R'' 2016 679) = Some (''R'', 2016, 679)"
    using C6_celex_ida_y_vuelta [of "''R''" 2016 679] h by blast
  then have "analizar_celex_spec ''32016R0679'' = Some (''R'', 2016, 679)"
    unfolding ev .
  with ev show ?thesis by simp
qed

section \<open>Regular expressions of the source\<close>

text \<open>
  The patterns the source hands to \<open>re.search\<close>, \<open>re.match\<close> and \<open>re.sub\<close> are built from
  character tests, greedy repetitions of one character test, sequence, alternation,
  the greedy option, capturing groups and the end anchor. \<open>casar\<close> lists, in the order
  a backtracking matcher tries them, the ways a pattern can match at the head of a
  string, each with the rest of the string and the groups captured; the match Python
  reports is the first of the list. With \<open>re.IGNORECASE\<close> a literal character matches
  the characters with the same lower-case form.
\<close>

datatype rx =
    Car "char \<Rightarrow> bool"
  | Rep "char \<Rightarrow> bool" nat "nat option"
  | Sec rx rx
  | Alt rx rx
  | Opc rx
  | Vacio
  | Grp nat rx
  | Fin

type_synonym grupos = "(nat \<times> string) list"

fun casar :: "rx \<Rightarrow> string \<times> grupos \<Rightarrow> (string \<times> grupos) list" where
  "casar (Car p) (s, g) = (case s of [] \<Rightarrow> [] | c # cs \<Rightarrow> if p c then [(cs, g)] else [])"
| "casar (Rep p lo hi) (s, g) =
     (let k = length (takeWhile p s);
          tope = (case hi of None \<Rightarrow> k | Some h \<Rightarrow> min h k)
      in map (\<lambda>i. (drop i s, g)) (rev [lo..<Suc tope]))"
| "casar (Sec a b) st = concat (map (casar b) (casar a st))"
| "casar (Alt a b) st = casar a st @ casar b st"
| "casar (Opc a) st = casar a st @ [st]"
| "casar Vacio st = [st]"
| "casar (Grp i a) (s, g) =
     map (\<lambda>(s', g'). (s', (i, take (length s - length s') s) # g')) (casar a (s, g))"
| "casar Fin (s, g) = (if s = [] \<or> s = [CHR 0x0A] then [(s, g)] else [])"

definition re_match :: "rx \<Rightarrow> string \<Rightarrow> (string \<times> grupos) option" where
  "re_match r s = (case casar r (s, []) of [] \<Rightarrow> None | st # _ \<Rightarrow> Some st)"

fun re_search :: "rx \<Rightarrow> string \<Rightarrow> (string \<times> string \<times> grupos) option" where
  "re_search r [] = (case re_match r [] of None \<Rightarrow> None | Some (resto, g) \<Rightarrow> Some ([], resto, g))"
| "re_search r (c # cs) =
     (case re_match r (c # cs) of
        None \<Rightarrow> re_search r cs
      | Some (resto, g) \<Rightarrow> Some (c # cs, resto, g))"

definition grupo :: "grupos \<Rightarrow> nat \<Rightarrow> string option" where
  "grupo g i = map_of g i"

definition igual_i :: "char \<Rightarrow> char \<Rightarrow> bool" where
  "igual_i c x = (minuscula x = minuscula c)"

definition lit :: "string \<Rightarrow> rx" where
  "lit w = foldr (\<lambda>c r. Sec (Car (\<lambda>x. x = c)) r) w Vacio"

definition lit_i :: "string \<Rightarrow> rx" where
  "lit_i w = foldr (\<lambda>c r. Sec (Car (igual_i c)) r) w Vacio"


fun prefijo_i :: "string \<Rightarrow> string \<Rightarrow> bool" where
  "prefijo_i [] s = True"
| "prefijo_i (c # w) [] = False"
| "prefijo_i (c # w) (x # s) = (igual_i c x \<and> prefijo_i w s)"


lemmas eval_car = igual_i_def minuscula_def char_of_def bit_Suc_0_iff es_digito_def
  es_espacio_def Let_def

section \<open>Extraction of a CELEX from a text\<close>










lemma casar_lit_i:
  "casar (lit_i w) (s, g) = (if prefijo_i w s then [(drop (length w) s, g)] else [])"
proof (induction w arbitrary: s)
  case Nil
  then show ?case by (simp add: lit_i_def)
next
  case (Cons c w)
  have u: "lit_i (c # w) = Sec (Car (igual_i c)) (lit_i w)" by (simp add: lit_i_def)
  show ?case
  proof (cases s)
    case Nil
    then show ?thesis by (simp add: u)
  next
    case (Cons x s')
    with Cons.IH [of s'] show ?thesis by (simp add: u)
  qed
qed

lemma casar_Sec_primero:
  "casar a st = x # xs \<Longrightarrow> casar b x = y # ys \<Longrightarrow> \<exists>zs. casar (Sec a b) st = y # zs"
  by simp


lemma digito_no_espacio: "es_digito d \<Longrightarrow> \<not> es_espacio d"
  by (auto simp: es_digito_def es_espacio_def Let_def)

lemma digito_minuscula: "es_digito d \<Longrightarrow> minuscula d = d"
  by (auto simp: es_digito_def minuscula_def Let_def)

lemma digito_no_igual_i: "es_digito d \<Longrightarrow> \<not> es_digito (minuscula c) \<Longrightarrow> \<not> igual_i c d"
  by (auto simp: igual_i_def digito_minuscula)





















lemma digitos_no_vacio: "digitos n \<noteq> []"
  by (subst digitos.simps) simp













lemmas eval_digitos = digitos.simps digito_def char_of_def bit_Suc_0_iff





section \<open>Direct download of an article\<close>

text \<open>
  \<open>BOEArticleFetcher._intentar_descarga_directa\<close> of \<open>modules/boe_article_fetcher.py\<close>.
  The HTTP request of \<open>_descargar_bloque_articulo\<close> and the XML reading of
  \<open>_extraer_articulo_bloque\<close> (which yields the title and the HTML of the block, or
  nothing) are parameters. \<open>int_py\<close> is \<open>int(s)\<close>, whose \<open>ValueError\<close> the source
  catches; the \<open>IndexError\<close> of \<open>centenas[c]\<close> for a number of 1000 or more is not
  caught there.
\<close>

definition patron_prefijo_articulo :: rx where
  \<comment> \<open>\<open>^(art\<bsol>.?|art\<iacute>culo|art)\<bsol>s*\<close>\<close>
  "patron_prefijo_articulo =
     Sec (Grp 1 (Alt (Sec (lit_i ''art'') (Opc (lit ''.'')))
               (Alt (lit_i (''art'' @ [CHR 0xED] @ ''culo'')) (lit_i ''art''))))
         (Rep es_espacio 0 None)"

definition patron_numero_articulo :: rx where
  \<comment> \<open>\<open>^(\<bsol>d+(?:\<bsol>.\<bsol>d+)?)\<close>\<close>
  "patron_numero_articulo =
     Grp 1 (Sec (Rep es_digito 1 None) (Opc (Sec (lit ''.'') (Rep es_digito 1 None))))"

definition normalizar_numero_articulo :: "string \<Rightarrow> string" where
  "normalizar_numero_articulo numero =
     (let numero = (case re_match patron_prefijo_articulo (lower numero) of
                      Some (resto, g) \<Rightarrow> resto
                    | None \<Rightarrow> lower numero);
          numero = strip numero
      in case re_match patron_numero_articulo numero of
           Some (resto, g) \<Rightarrow> (case grupo g 1 of Some g1 \<Rightarrow> g1 | None \<Rightarrow> numero)
         | None \<Rightarrow> numero)"

definition split_punto_0 :: "string \<Rightarrow> string" where
  \<comment> \<open>\<open>s.split('.')[0]\<close>\<close>
  "split_punto_0 s = takeWhile (\<lambda>c. c \<noteq> CHR ''.'') s"

fun grupos_de_cifras :: "string \<Rightarrow> bool" where
  \<comment> \<open>digits, with single underscores between digits only\<close>
  "grupos_de_cifras [] = False"
| "grupos_de_cifras [c] = es_digito c"
| "grupos_de_cifras (c # d # s) =
     (es_digito c \<and> (if d = CHR ''_'' then grupos_de_cifras s else grupos_de_cifras (d # s)))"

definition int_py :: "string \<Rightarrow> int option" where
  \<comment> \<open>\<open>int(s)\<close>; \<open>None\<close> is \<open>ValueError\<close>\<close>
  "int_py s =
     (let t = strip s;
          (negativo, cuerpo) = (case t of
                                  c # r \<Rightarrow> if c = CHR ''-'' then (True, r)
                                           else if c = CHR ''+'' then (False, r) else (False, t)
                                | [] \<Rightarrow> (False, t))
      in if grupos_de_cifras cuerpo
         then (let v = int (valor_digitos (filter (\<lambda>c. c \<noteq> CHR ''_'') cuerpo))
               in Some (if negativo then - v else v))
         else None)"

definition unidades :: "string list" where
  "unidades = ['''', ''uno'', ''dos'', ''tres'', ''cuatro'', ''cinco'', ''seis'', ''siete'',
               ''ocho'', ''nueve'']"

definition especiales :: "string list" where
  "especiales = [''diez'', ''once'', ''doce'', ''trece'', ''catorce'', ''quince'',
                 ''diecis'' @ [CHR 0xE9] @ ''is'', ''diecisiete'', ''dieciocho'', ''diecinueve'']"

definition decenas :: "string list" where
  "decenas = ['''', '''', ''veint'', ''treinta'', ''cuarenta'', ''cincuenta'', ''sesenta'',
              ''setenta'', ''ochenta'', ''noventa'']"

definition centenas :: "string list" where
  "centenas = ['''', ''ciento'', ''doscientos'', ''trescientos'', ''cuatrocientos'',
               ''quinientos'', ''seiscientos'', ''setecientos'', ''ochocientos'',
               ''novecientos'']"

definition elemento :: "'a list \<Rightarrow> int \<Rightarrow> error + 'a" where
  \<comment> \<open>\<open>xs[i]\<close> for an index that is not negative\<close>
  "elemento xs i = (if nat i < length xs then Inr (xs ! nat i) else Inl IndexError)"

definition numero_a_palabras_lopj :: "int \<Rightarrow> error + string" where
  "numero_a_palabras_lopj numero =
     (if numero = 0 then Inr ''acero''
      else if numero < 10 \<and> numero = 1 then Inr ''aprimero''
      else if numero < 10 \<and> numero = 2 then Inr ''asegundo''
      else if numero < 10 \<and> numero = 3 then Inr ''atercero''
      else if numero < 10 \<and> numero = 4 then Inr ''acuarto''
      else if numero < 10 \<and> numero = 5 then Inr ''aquinto''
      else if numero < 10 \<and> numero = 6 then Inr ''asexto''
      else if numero < 10 \<and> numero = 7 then Inr ''aseptimo''
      else if numero < 10 \<and> numero = 8 then Inr ''aoctavo''
      else if numero < 10 \<and> numero = 9 then Inr ''anoveno''
      else
        (let c = numero div 100;
             resto = numero mod 100;
             d = resto div 10;
             u = resto mod 10;
             cola =
               (if resto \<ge> 10 \<and> resto < 20 then especiales ! nat (resto - 10)
                else if resto \<ge> 20 then
                  (if resto \<ge> 20 \<and> resto \<le> 29
                   then (if u = 0 then ''veinte'' else decenas ! nat d @ ''i'' @ unidades ! nat u)
                   else decenas ! nat d @ (if u > 0 then ''y'' @ unidades ! nat u else []))
                else (if resto > 0 then unidades ! nat resto else []))
         in case (if c > 0 then (if numero = 100 then Inr ''cien'' else elemento centenas c)
                  else Inr [])
            of Inl e \<Rightarrow> Inl e
             | Inr resultado \<Rightarrow> Inr (''a'' @ resultado @ cola)))"

definition patrones_id :: "string \<Rightarrow> string \<Rightarrow> error + string list" where
  "patrones_id id_bloque numero_articulo =
     (let num_norm = normalizar_numero_articulo numero_articulo;
          num_base = split_punto_0 num_norm;
          patrones = [''a'' @ num_base, ''art'' @ num_base, ''a'' @ num_base @ ''bis'',
                      ''art'' @ num_base @ ''bis'', id_bloque]
      in case int_py num_base of
           None \<Rightarrow> Inr patrones
         | Some num_int \<Rightarrow>
             (case numero_a_palabras_lopj num_int of
                Inl e \<Rightarrow> Inl e
              | Inr patron_lopj \<Rightarrow> Inr (take 1 patrones @ [patron_lopj] @ drop 1 patrones)))"

record articulo_boe =
  ab_numero :: string
  ab_titulo :: string
  ab_texto :: string
  ab_boe_id :: string
  ab_url :: string

record boe_api =
  descargar_bloque_articulo :: "string \<Rightarrow> string \<Rightarrow> string option"
  leer_bloque :: "string \<Rightarrow> (string \<times> string) option"

definition extraer_articulo_bloque ::
  "boe_api \<Rightarrow> string \<Rightarrow> string \<Rightarrow> string \<Rightarrow> articulo_boe option" where
  "extraer_articulo_bloque api xml_content numero_articulo boe_id' =
     (case leer_bloque api xml_content of
        None \<Rightarrow> None
      | Some (titulo, texto_html) \<Rightarrow>
          (let num_base = normalizar_numero_articulo numero_articulo
           in Some \<lparr>ab_numero = num_base, ab_titulo = titulo, ab_texto = texto_html,
                    ab_boe_id = boe_id',
                    ab_url = ''https://www.boe.es/buscar/act.php?id='' @ boe_id' @ ''#a'' @ num_base\<rparr>))"

definition probar_patron ::
  "boe_api \<Rightarrow> string \<Rightarrow> string \<Rightarrow> string \<Rightarrow> articulo_boe option" where
  \<comment> \<open>one turn of the loop over \<open>patrones_id\<close>\<close>
  "probar_patron api boe_id' numero_articulo id_test =
     (case descargar_bloque_articulo api boe_id' id_test of
        None \<Rightarrow> None
      | Some xml_content \<Rightarrow>
          if xml_content = [] then None
          else extraer_articulo_bloque api xml_content numero_articulo boe_id')"

fun primer_exito :: "('a \<Rightarrow> 'b option) \<Rightarrow> 'a list \<Rightarrow> 'b option" where
  "primer_exito f [] = None"
| "primer_exito f (x # xs) = (case f x of Some y \<Rightarrow> Some y | None \<Rightarrow> primer_exito f xs)"

definition intentar_descarga_directa ::
  "boe_api \<Rightarrow> string \<Rightarrow> string \<Rightarrow> string \<Rightarrow> error + articulo_boe option" where
  "intentar_descarga_directa api boe_id' id_bloque numero_articulo =
     (case patrones_id id_bloque numero_articulo of
        Inl e \<Rightarrow> Inl e
      | Inr patrones \<Rightarrow> Inr (primer_exito (probar_patron api boe_id' numero_articulo) patrones))"

definition ej_boe_api :: boe_api where
  "ej_boe_api =
     \<lparr>descargar_bloque_articulo =
        (\<lambda>b i. if i = ''art117'' then Some ''<cc/>''
               else if i = ''acientodiecisiete'' then Some ''<lopj/>'' else None),
      leer_bloque =
        (\<lambda>x. if x = ''<cc/>'' then Some (''Articulo 117 (art117)'', ''<p>uno</p>'')
             else if x = ''<lopj/>'' then Some (''Articulo 117 (acientodiecisiete)'', ''<p>dos</p>'')
             else None)\<rparr>"

lemma lower_digitos: "lower (digitos n) = digitos n"
  unfolding lower_def using digitos_es_digito [of n]
  by (intro map_idI) (simp add: list_all_iff digito_minuscula)

lemma dropWhile_ninguno: "(\<forall>c \<in> set t. \<not> P c) \<Longrightarrow> dropWhile P t = t"
  by (cases t) auto

lemma strip_sin_espacios: "(\<forall>c \<in> set s. \<not> es_espacio c) \<Longrightarrow> strip s = s"
  by (simp add: strip_def dropWhile_ninguno)

lemma strip_digitos: "strip (digitos n) = digitos n"
  using digitos_es_digito [of n]
  by (intro strip_sin_espacios) (auto simp: list_all_iff digito_no_espacio)

lemma min_a: "minuscula (CHR ''a'') = CHR ''a''" by (simp add: minuscula_def)

lemma sin_prefijo_articulo: "re_match patron_prefijo_articulo (digitos n) = None"
proof -
  obtain d ds where d: "digitos n = d # ds" "es_digito d"
    using digitos_es_digito [of n] digitos_no_vacio [of n] by (cases "digitos n") auto
  have "\<not> igual_i (CHR ''a'') d"
    using d(2) by (rule digito_no_igual_i) (simp add: min_a es_digito_def)
  then show ?thesis
    by (simp add: re_match_def patron_prefijo_articulo_def casar_lit_i d(1))
qed

lemma casar_cifras:
  assumes "list_all es_digito ds" "ds \<noteq> []"
  shows "\<exists>zs. casar (Rep es_digito 1 None) (ds, g) = ([], g) # zs"
proof -
  have tw: "takeWhile es_digito ds = ds" using assms(1) by (simp add: list_all_iff)
  from assms(2) have "1 \<le> length ds" by (cases ds) auto
  then have "rev [1..<Suc (length ds)] = length ds # rev [1..<length ds]" by simp
  then show ?thesis by (simp add: tw Let_def)
qed

lemma numero_articulo_digitos:
  "\<exists>zs. casar patron_numero_articulo (digitos n, []) = ([], [(1, digitos n)]) # zs"
proof -
  from casar_cifras [OF digitos_es_digito digitos_no_vacio, of n "[]"] obtain z1 where
    a: "casar (Rep es_digito 1 None) (digitos n, []) = ([], []) # z1" by blast
  have b: "casar (Opc (Sec (lit ''.'') (Rep es_digito 1 None))) ([], []) = [([], [])]"
    by (simp add: lit_def)
  from casar_Sec_primero [OF a b] obtain z2 where
    "casar (Sec (Rep es_digito 1 None) (Opc (Sec (lit ''.'') (Rep es_digito 1 None))))
       (digitos n, []) = ([], []) # z2" by blast
  then show ?thesis by (simp add: patron_numero_articulo_def)
qed

lemma normalizar_digitos: "normalizar_numero_articulo (digitos n) = digitos n"
proof -
  from numero_articulo_digitos [of n] obtain zs where
    "casar patron_numero_articulo (digitos n, []) = ([], [(1, digitos n)]) # zs" by blast
  then have "re_match patron_numero_articulo (digitos n) = Some ([], [(1, digitos n)])"
    by (simp add: re_match_def)
  then show ?thesis
    by (simp add: normalizar_numero_articulo_def lower_digitos sin_prefijo_articulo strip_digitos
          grupo_def)
qed

lemma split_punto_digitos: "split_punto_0 (digitos n) = digitos n"
  unfolding split_punto_0_def using digitos_es_digito [of n]
  by (auto simp: list_all_iff es_digito_def takeWhile_eq_all_conv)

lemma grupos_de_cifras_digitos:
  "list_all es_digito ds \<Longrightarrow> ds \<noteq> [] \<Longrightarrow> grupos_de_cifras ds"
proof (induction ds rule: grupos_de_cifras.induct)
  case (3 c d s)
  then have "d \<noteq> CHR ''_''" by (auto simp: es_digito_def)
  with 3 show ?case by simp
qed simp_all

lemma filtro_guion_digitos: "list_all es_digito ds \<Longrightarrow> filter (\<lambda>c. c \<noteq> CHR ''_'') ds = ds"
  by (induction ds) (auto simp: es_digito_def)

lemma int_py_digitos: "int_py (digitos n) = Some (int n)"
proof -
  obtain d ds where d: "digitos n = d # ds" "es_digito d"
    using digitos_es_digito [of n] digitos_no_vacio [of n] by (cases "digitos n") auto
  then have s: "d \<noteq> CHR ''-''" "d \<noteq> CHR ''+''" by (auto simp: es_digito_def)
  have "grupos_de_cifras (d # ds)"
    using grupos_de_cifras_digitos [OF digitos_es_digito digitos_no_vacio, of n] d(1) by simp
  moreover have "filter (\<lambda>c. c \<noteq> CHR ''_'') (d # ds) = d # ds"
    using filtro_guion_digitos [OF digitos_es_digito, of n] d(1) by simp
  moreover have "valor_digitos (d # ds) = n" using valor_digitos_digitos [of n] d(1) by simp
  moreover have "strip (d # ds) = d # ds" using strip_digitos [of n] d(1) by simp
  ultimately show ?thesis
    using s unfolding int_py_def d(1) by (simp add: Let_def)
qed

lemma lopj_hasta_999: "n < 1000 \<Longrightarrow> \<exists>palabra. numero_a_palabras_lopj (int n) = Inr palabra"
proof -
  assume "n < 1000"
  then have "nat (int n div 100) < length centenas" by (simp add: centenas_def)
  then show ?thesis
    by (simp add: numero_a_palabras_lopj_def elemento_def Let_def)
qed

lemma primer_exito_Some:
  "primer_exito f xs = Some y \<Longrightarrow>
   \<exists>i < length xs. f (xs ! i) = Some y \<and> (\<forall>j < i. f (xs ! j) = None)"
proof (induction xs)
  case Nil
  then show ?case by simp
next
  case (Cons x xs)
  show ?case
  proof (cases "f x")
    case None
    with Cons obtain i where "i < length xs" "f (xs ! i) = Some y" "\<forall>j < i. f (xs ! j) = None"
      by auto
    with None have "Suc i < length (x # xs) \<and> f ((x # xs) ! Suc i) = Some y \<and>
                    (\<forall>j < Suc i. f ((x # xs) ! j) = None)"
      by (auto simp: less_Suc_eq_0_disj)
    then show ?thesis by blast
  next
    case (Some z)
    with Cons.prems have "f ((x # xs) ! 0) = Some y" by simp
    then show ?thesis by (intro exI [of _ 0]) simp
  qed
qed

lemma primer_exito_None: "primer_exito f xs = None \<Longrightarrow> \<forall>x \<in> set xs. f x = None"
  by (induction xs) (auto split: option.splits)

text \<open>
  Claim C9, as amended. In the direct attempt for article \<open>n\<close> (below 1000, written in
  digits) the block ids are tried in this order: \<open>a<n>\<close>, the Spanish-word form of
  \<open>n\<close> (\<open>acientodiecisiete\<close> for 117), \<open>art<n>\<close>, \<open>a<n>bis\<close>, \<open>art<n>bis\<close>, and the id
  the caller supplied; the result is that of the first id whose download and extraction
  succeed, and there is none when all fail.
\<close>

theorem C9_orden_de_patrones:
  "(n < 1000 \<longrightarrow>
      (\<exists>palabra.
         numero_a_palabras_lopj (int n) = Inr palabra \<and>
         patrones_id id_bloque (digitos n) =
           Inr [''a'' @ digitos n, palabra, ''art'' @ digitos n, ''a'' @ digitos n @ ''bis'',
                ''art'' @ digitos n @ ''bis'', id_bloque] \<and>
         intentar_descarga_directa api boe_id' id_bloque (digitos n) =
           Inr (primer_exito (probar_patron api boe_id' (digitos n))
                  [''a'' @ digitos n, palabra, ''art'' @ digitos n, ''a'' @ digitos n @ ''bis'',
                   ''art'' @ digitos n @ ''bis'', id_bloque]))) \<and>
   numero_a_palabras_lopj 117 = Inr ''acientodiecisiete'' \<and>
   (\<forall>art. primer_exito (probar_patron api boe_id' numero_articulo) ids = Some art \<longrightarrow>
      (\<exists>i < length ids. probar_patron api boe_id' numero_articulo (ids ! i) = Some art \<and>
         (\<forall>j < i. probar_patron api boe_id' numero_articulo (ids ! j) = None))) \<and>
   (primer_exito (probar_patron api boe_id' numero_articulo) ids = None \<longrightarrow>
      (\<forall>x \<in> set ids. probar_patron api boe_id' numero_articulo x = None))"
proof -
  have a: "n < 1000 \<Longrightarrow> (\<exists>palabra.
         numero_a_palabras_lopj (int n) = Inr palabra \<and>
         patrones_id id_bloque (digitos n) =
           Inr [''a'' @ digitos n, palabra, ''art'' @ digitos n, ''a'' @ digitos n @ ''bis'',
                ''art'' @ digitos n @ ''bis'', id_bloque] \<and>
         intentar_descarga_directa api boe_id' id_bloque (digitos n) =
           Inr (primer_exito (probar_patron api boe_id' (digitos n))
                  [''a'' @ digitos n, palabra, ''art'' @ digitos n, ''a'' @ digitos n @ ''bis'',
                   ''art'' @ digitos n @ ''bis'', id_bloque]))"
  proof -
    assume "n < 1000"
    from lopj_hasta_999 [OF this] obtain palabra where
      p: "numero_a_palabras_lopj (int n) = Inr palabra" by blast
    then have q: "patrones_id id_bloque (digitos n) =
           Inr [''a'' @ digitos n, palabra, ''art'' @ digitos n, ''a'' @ digitos n @ ''bis'',
                ''art'' @ digitos n @ ''bis'', id_bloque]"
      by (simp add: patrones_id_def normalizar_digitos split_punto_digitos int_py_digitos Let_def)
    then show ?thesis using p by (simp add: intentar_descarga_directa_def)
  qed
  have b: "numero_a_palabras_lopj 117 = Inr ''acientodiecisiete''"
    by (simp add: numero_a_palabras_lopj_def elemento_def centenas_def especiales_def Let_def)
  show ?thesis
    using a b primer_exito_Some [of "probar_patron api boe_id' numero_articulo" ids]
          primer_exito_None [of "probar_patron api boe_id' numero_articulo" ids]
    by blast
qed

theorem C9_orden_de_patrones_witness:
  "(117::nat) < 1000 \<and>
   patrones_id ''a117'' ''117'' =
     Inr [''a117'', ''acientodiecisiete'', ''art117'', ''a117bis'', ''art117bis'', ''a117''] \<and>
   (\<exists>art. intentar_descarga_directa ej_boe_api ''BOE-A-1985-12666'' ''a117'' ''117'' = Inr (Some art) \<and>
      probar_patron ej_boe_api ''BOE-A-1985-12666'' ''117'' ''acientodiecisiete'' = Some art \<and>
      probar_patron ej_boe_api ''BOE-A-1985-12666'' ''117'' ''a117'' = None)"
proof -
  have d: "digitos 117 = ''117''" by (simp add: eval_digitos)
  have h: "(117::nat) < 1000" by simp
  have p0: "probar_patron ej_boe_api ''BOE-A-1985-12666'' ''117'' ''a117'' = None"
    by (simp add: probar_patron_def ej_boe_api_def)
  obtain art where p1: "probar_patron ej_boe_api ''BOE-A-1985-12666'' ''117'' ''acientodiecisiete'' = Some art"
    by (simp add: probar_patron_def ej_boe_api_def extraer_articulo_bloque_def Let_def)
  from C9_orden_de_patrones [of 117 "''a117''" ej_boe_api "''BOE-A-1985-12666''"] h
  obtain palabra where
    w: "numero_a_palabras_lopj (int 117) = Inr palabra"
       "patrones_id ''a117'' (digitos 117) =
          Inr [''a'' @ digitos 117, palabra, ''art'' @ digitos 117, ''a'' @ digitos 117 @ ''bis'',
               ''art'' @ digitos 117 @ ''bis'', ''a117'']"
       "intentar_descarga_directa ej_boe_api ''BOE-A-1985-12666'' ''a117'' (digitos 117) =
           Inr (primer_exito (probar_patron ej_boe_api ''BOE-A-1985-12666'' (digitos 117))
                  [''a'' @ digitos 117, palabra, ''art'' @ digitos 117, ''a'' @ digitos 117 @ ''bis'',
                   ''art'' @ digitos 117 @ ''bis'', ''a117''])"
    and l: "numero_a_palabras_lopj 117 = Inr ''acientodiecisiete''"
    by blast
  from w(1) l have pa: "palabra = ''acientodiecisiete''" by simp
  from w(2) have q: "patrones_id ''a117'' ''117'' =
     Inr [''a117'', ''acientodiecisiete'', ''art117'', ''a117bis'', ''art117bis'', ''a117'']"
    unfolding d pa by simp
  from w(3) have "intentar_descarga_directa ej_boe_api ''BOE-A-1985-12666'' ''a117'' ''117'' =
      Inr (Some art)"
    unfolding d pa using p0 p1 by simp
  with h q p0 p1 show ?thesis by blast
qed

text \<open>
  Claim C9 as stated fails: the word form is tried second, before \<open>art<n>\<close>
  (\<open>patrones_id.insert(1, patron_lopj)\<close>). When both \<open>art117\<close> and
  \<open>acientodiecisiete\<close> can be downloaded, the result is the block of the word form.
\<close>

theorem C9_palabra_antes_de_art_counterexample:
  "patrones_id ''a117'' ''117'' =
     Inr [''a117'', ''acientodiecisiete'', ''art117'', ''a117bis'', ''art117bis'', ''a117''] \<and>
   map_option ab_titulo (probar_patron ej_boe_api ''BOE-A-1985-12666'' ''117'' ''art117'') =
     Some ''Articulo 117 (art117)'' \<and>
   map_sum id (map_option ab_titulo)
     (intentar_descarga_directa ej_boe_api ''BOE-A-1985-12666'' ''a117'' ''117'') =
     Inr (Some ''Articulo 117 (acientodiecisiete)'')"
  by code_simp

section \<open>The BOE downloader and the validator agent\<close>

text \<open>
  \<open>BOEDownloader\<close> is modelled over its cache read, the HTTP request (which raises or
  answers with a status code and a body) and the HTML parser. The write of the downloaded
  law into the cache is left out: no result below depends on a second download.
\<close>

record articulo_ley =
  al_numero :: string
  al_titulo :: string
  al_texto_completo :: string

record ley_boe =
  lb_boe_id :: string
  lb_articulos :: "string \<Rightarrow> articulo_ley option"
  lb_cached :: bool

record boe_descargas =
  dl_cache :: "string \<Rightarrow> ley_boe option"
  dl_http_get :: "string \<Rightarrow> error + nat \<times> string"
  dl_parsear_html :: "string \<Rightarrow> string \<Rightarrow> string \<Rightarrow> articulo_ley option"

definition descargar_ley :: "boe_descargas \<Rightarrow> string \<Rightarrow> ley_boe option" where
  "descargar_ley w boe_id' =
     (case dl_cache w boe_id' of
        Some cached \<Rightarrow> Some cached
      | None \<Rightarrow>
          (case dl_http_get w (''https://www.boe.es/buscar/act.php'' @ ''?id='' @ boe_id') of
             Inl e \<Rightarrow> None
           | Inr (status_code, html_content) \<Rightarrow>
               if status_code \<noteq> 200 then None
               else Some \<lparr>lb_boe_id = boe_id',
                          lb_articulos = dl_parsear_html w html_content boe_id',
                          lb_cached = False\<rparr>))"

definition lstrip_ceros :: "string \<Rightarrow> string" where
  \<comment> \<open>\<open>s.lstrip('0')\<close>\<close>
  "lstrip_ceros s = dropWhile (\<lambda>c. c = CHR ''0'') s"

definition verificar_articulo_existe :: "boe_descargas \<Rightarrow> string \<Rightarrow> string \<Rightarrow> bool" where
  "verificar_articulo_existe w boe_id' numero_articulo =
     (case descargar_ley w boe_id' of
        None \<Rightarrow> False
      | Some ley_data \<Rightarrow>
          (let numero_norm = lstrip_ceros (strip numero_articulo)
           in lb_articulos ley_data numero_norm \<noteq> None))"

definition obtener_texto_articulo :: "boe_descargas \<Rightarrow> string \<Rightarrow> string \<Rightarrow> string option" where
  "obtener_texto_articulo w boe_id' numero_articulo =
     (case descargar_ley w boe_id' of
        None \<Rightarrow> None
      | Some ley_data \<Rightarrow>
          (let numero_norm = lstrip_ceros (strip numero_articulo)
           in case lb_articulos ley_data numero_norm of
                Some articulo_data \<Rightarrow> Some (al_texto_completo articulo_data)
              | None \<Rightarrow> None))"

record validador =
  verificar_articulos :: bool
  buscar_ley :: "string \<Rightarrow> string option \<Rightarrow> string option \<Rightarrow> error + string option"
  boe_downloader :: boe_descargas

record verificacion_boe =
  vb_existe :: "bool option"
  vb_texto_oficial :: "string option"
  vb_verificado_boe :: bool
  vb_error :: "string option"

definition art_i :: string where "art_i = ''Art'' @ [CHR 0xED] @ ''culo ''"

definition verificar_articulo_en_boe :: "validador \<Rightarrow> string \<Rightarrow> string \<Rightarrow> verificacion_boe" where
  "verificar_articulo_en_boe v boe_id' articulo' =
     (if \<not> verificar_articulos v
      then \<lparr>vb_existe = None, vb_texto_oficial = None, vb_verificado_boe = False,
            vb_error = Some (''Verificaci'' @ [CHR 0xF3] @ ''n de art'' @ [CHR 0xED] @
                             ''culos deshabilitada'')\<rparr>
      else if verificar_articulo_existe (boe_downloader v) boe_id' articulo'
      then \<lparr>vb_existe = Some True,
            vb_texto_oficial = obtener_texto_articulo (boe_downloader v) boe_id' articulo',
            vb_verificado_boe = True, vb_error = None\<rparr>
      else \<lparr>vb_existe = Some False, vb_texto_oficial = None, vb_verificado_boe = True,
            vb_error = Some (art_i @ articulo' @ '' NO existe en '' @ boe_id')\<rparr>)"

definition patron_numero_ley :: rx where
  \<comment> \<open>\<open>(\<bsol>d+/\<bsol>d{4})\<close>\<close>
  "patron_numero_ley =
     Grp 1 (Sec (Rep es_digito 1 None) (Sec (lit ''/'') (Rep es_digito 4 (Some 4))))"

definition patrones_ley :: "rx list" where
  "patrones_ley =
     [Sec (lit_i ''Ley'') (Sec (Rep es_espacio 1 None)
        (Sec (Opc (Sec (lit_i (''Org'' @ [CHR 0xE1] @ ''nica'')) (Rep es_espacio 1 None)))
             patron_numero_ley)),
      Sec (lit_i ''Real'') (Sec (Rep es_espacio 1 None) (Sec (lit_i ''Decreto'')
        (Sec (Rep es_espacio 1 None)
        (Sec (Opc (Sec (lit_i ''Ley'') (Rep es_espacio 1 None)))
             patron_numero_ley)))),
      Sec (lit_i (''Constituci'' @ [CHR 0xF3] @ ''n'')) (Sec (Rep es_espacio 1 None)
        (lit_i (''Espa'' @ [CHR 0xF1] @ ''ola'')))]"

definition grupo_0 :: "string \<times> string \<times> grupos \<Rightarrow> string" where
  \<comment> \<open>\<open>match.group(0)\<close>\<close>
  "grupo_0 m = (case m of (desde, resto, g) \<Rightarrow> take (length desde - length resto) desde)"

definition extraer_ley_de_texto :: "string \<Rightarrow> string option" where
  "extraer_ley_de_texto texto =
     primer_exito (\<lambda>patron. map_option grupo_0 (re_search patron texto)) patrones_ley"

record ley_info =
  li_referencia :: string
  li_anio :: "string option"
  li_tipo :: "string option"
  li_titulo_completo :: "string option"

definition get_o :: "'a campo \<Rightarrow> 'a option" where
  \<comment> \<open>\<open>d.get(k)\<close>\<close>
  "get_o c = (case c of Valor v \<Rightarrow> Some v | _ \<Rightarrow> None)"

definition cierto :: "string option \<Rightarrow> bool" where
  \<comment> \<open>the truth value of a string or \<open>None\<close>\<close>
  "cierto x = (case x of Some s \<Rightarrow> s \<noteq> [] | None \<Rightarrow> False)"

definition extraer_info_ley :: "referencia \<Rightarrow> error + ley_info option" where
  "extraer_info_ley referencia' =
     (let ley0 = (if cierto (get_o (ley_normalizada referencia'))
                  then get_o (ley_normalizada referencia') else get_o (ley referencia'));
          ley1 = (if \<not> cierto ley0
                  then (case get_con_defecto (texto_completo referencia') [] of
                          None \<Rightarrow> Inl TypeError
                        | Some texto \<Rightarrow> Inr (extraer_ley_de_texto texto))
                  else Inr ley0)
      in case ley1 of
           Inl e \<Rightarrow> Inl e
         | Inr ley' \<Rightarrow>
             (case ley' of
                None \<Rightarrow> Inr None
              | Some l \<Rightarrow>
                  if l = [] then Inr None
                  else Inr (Some
                    \<lparr>li_referencia = l,
                     li_anio = (case re_search (Grp 1 (Rep es_digito 4 (Some 4))) l of
                                  Some (_, _, g) \<Rightarrow> grupo g 1 | None \<Rightarrow> None),
                     li_tipo = get_con_defecto (tipo referencia') ''desconocido'',
                     li_titulo_completo = get_o (ley_titulo_completo referencia')\<rparr>)))"

definition buscar_boe_id :: "validador \<Rightarrow> ley_info \<Rightarrow> string option" where
  "buscar_boe_id v info =
     (case buscar_ley v (li_referencia info) (li_anio info) (li_titulo_completo info) of
        Inl e \<Rightarrow> None
      | Inr r \<Rightarrow> r)"

definition validar_formato_articulo :: "string \<Rightarrow> bool" where
  \<comment> \<open>\<open>^\<bsol>d+(?:\<bsol>.\<bsol>d+)?(?:\<bsol>.[a-z])?$\<close>\<close>
  "validar_formato_articulo articulo' =
     (re_match
        (Sec (Rep es_digito 1 None)
        (Sec (Opc (Sec (lit ''.'') (Rep es_digito 1 None)))
        (Sec (Opc (Sec (lit ''.'') (Car (\<lambda>c. 97 \<le> (of_char c :: nat) \<and> (of_char c :: nat) \<le> 122))))
             Fin))) articulo' \<noteq> None)"

definition validacion_vacia :: metadata_validacion where
  "validacion_vacia =
     \<lparr>mv_validada = None, mv_motivo = None, mv_boe_id = None, mv_boe_url = None,
      mv_articulo_formato_valido = None, mv_articulo_verificado_boe = None,
      mv_articulo_existe_boe = None, mv_articulo_texto_oficial = None,
      mv_error_verificacion = None\<rparr>"

definition anotar_verificacion ::
  "string \<Rightarrow> verificacion_boe \<Rightarrow> referencia \<times> metadata_validacion \<Rightarrow>
   referencia \<times> metadata_validacion" where
  \<comment> \<open>what step 4 of \<open>_validar_referencia\<close> writes once \<open>verificacion_boe\<close> is known\<close>
  "anotar_verificacion art vb estado =
     (case estado of (ref0, val0) \<Rightarrow>
        (let val1 = val0\<lparr>mv_articulo_verificado_boe := Some (vb_verificado_boe vb),
                         mv_articulo_existe_boe := Some (vb_existe vb)\<rparr>;
             (ref2, val2) =
               (if vb_existe vb = Some True
                then (ref0\<lparr>texto_oficial_boe := Valor (vb_texto_oficial vb)\<rparr>,
                      val1\<lparr>mv_articulo_texto_oficial := Some (vb_texto_oficial vb)\<rparr>)
                else if vb_existe vb = Some False
                then (ref0\<lparr>ref_validada := Some False\<rparr>,
                      val1\<lparr>mv_validada := Some False,
                           mv_motivo := Some (art_i @ art @ '' NO existe en el BOE oficial'')\<rparr>)
                else (ref0, val1))
         in (ref2, if cierto (vb_error vb)
                   then val2\<lparr>mv_error_verificacion := vb_error vb\<rparr> else val2)))"

definition anotar_boe_id ::
  "string option \<Rightarrow> referencia \<times> metadata_validacion \<Rightarrow> referencia \<times> metadata_validacion" where
  \<comment> \<open>step 2 of \<open>_validar_referencia\<close>: \<open>if boe_id: ... else: ...\<close>\<close>
  "anotar_boe_id boe estado =
     (case estado of (ref0, val0) \<Rightarrow>
        (case (if cierto boe then boe else None) of
           Some b \<Rightarrow>
             (ref0\<lparr>boe_id := Valor b, ref_validada := Some True\<rparr>,
              val0\<lparr>mv_validada := Some True, mv_boe_id := Some b,
                   mv_boe_url := Some (''https://www.boe.es/buscar/act.php?id='' @ b)\<rparr>)
         | None \<Rightarrow>
             (ref0\<lparr>ref_validada := Some False\<rparr>,
              val0\<lparr>mv_validada := Some False,
                   mv_motivo := Some (''No se encontr'' @ [CHR 0xF3] @ '' BOE-ID'')\<rparr>)))"

definition validar_articulo ::
  "validador \<Rightarrow> string option \<Rightarrow> referencia \<times> metadata_validacion \<Rightarrow>
   referencia \<times> metadata_validacion" where
  \<comment> \<open>steps 3 and 4: \<open>if ref_validada.get('articulo'): ...\<close>\<close>
  "validar_articulo v boe estado =
     (case estado of (ref1, val1) \<Rightarrow>
        (case (if cierto (get_o (articulo ref1)) then get_o (articulo ref1) else None) of
           None \<Rightarrow> (ref1, val1)
         | Some art \<Rightarrow>
             (let val2 = val1\<lparr>mv_articulo_formato_valido := Some (validar_formato_articulo art)\<rparr>
              in case (if cierto boe \<and> verificar_articulos v then boe else None) of
                   None \<Rightarrow> (ref1, val2)
                 | Some b \<Rightarrow>
                     anotar_verificacion art (verificar_articulo_en_boe v b art) (ref1, val2))))"

definition validar_referencia :: "validador \<Rightarrow> referencia \<Rightarrow> error + referencia" where
  "validar_referencia v referencia' =
     (let validacion = (case ref_metadata_validacion referencia' of
                          None \<Rightarrow> validacion_vacia | Some m \<Rightarrow> m)
      in case extraer_info_ley referencia' of
           Inl e \<Rightarrow> Inl e
         | Inr None \<Rightarrow>
             Inr (referencia'
                   \<lparr>ref_validada := Some False,
                    ref_metadata_validacion := Some (validacion
                      \<lparr>mv_validada := Some False,
                       mv_motivo := Some (''No se pudo extraer informaci'' @ [CHR 0xF3] @
                                          ''n de ley'')\<rparr>)\<rparr>)
         | Inr (Some info) \<Rightarrow>
             (let boe = buscar_boe_id v info
              in case validar_articulo v boe (anotar_boe_id boe (referencia', validacion)) of
                   (ref_validada', validacion') \<Rightarrow>
                     Inr (ref_validada'\<lparr>ref_metadata_validacion := Some validacion'\<rparr>)))"

lemma validar_referencia_confianza:
  "validar_referencia v r = Inr r' \<Longrightarrow> confianza r' = confianza r"
  by (auto simp: validar_referencia_def validar_articulo_def anotar_boe_id_def
        anotar_verificacion_def Let_def
      split: sum.splits option.splits if_splits prod.splits)

lemma validar_articulo_inexistente:
  assumes "extraer_info_ley r = Inr (Some info)" "buscar_boe_id v info = Some b" "b \<noteq> []"
      and "articulo r = Valor a" "a \<noteq> []" "verificar_articulos v"
      and "\<not> verificar_articulo_existe (boe_downloader v) b a"
  shows "validar_referencia v r =
           Inr (r\<lparr>boe_id := Valor b, ref_validada := Some False,
                  ref_metadata_validacion := Some
                    ((case ref_metadata_validacion r of None \<Rightarrow> validacion_vacia | Some m \<Rightarrow> m)
                      \<lparr>mv_validada := Some False,
                       mv_motivo := Some (art_i @ a @ '' NO existe en el BOE oficial''),
                       mv_boe_id := Some b,
                       mv_boe_url := Some (''https://www.boe.es/buscar/act.php?id='' @ b),
                       mv_articulo_formato_valido := Some (validar_formato_articulo a),
                       mv_articulo_verificado_boe := Some True,
                       mv_articulo_existe_boe := Some (Some False),
                       mv_error_verificacion := Some (art_i @ a @ '' NO existe en '' @ b)\<rparr>)\<rparr>)"
  using assms
  by (simp add: validar_referencia_def validar_articulo_def anotar_boe_id_def
        anotar_verificacion_def verificar_articulo_en_boe_def cierto_def get_o_def Let_def
        art_i_def)

definition ej_articulo_1 :: articulo_ley where
  "ej_articulo_1 = \<lparr>al_numero = ''1'', al_titulo = ''Objeto de la Ley'',
                      al_texto_completo = ''La presente Ley tiene por objeto regular''\<rparr>"

definition ej_descargas :: boe_descargas where
  \<comment> \<open>the BOE answers 200 and the law has the single article 1\<close>
  "ej_descargas =
     \<lparr>dl_cache = (\<lambda>_. None),
      dl_http_get = (\<lambda>_. Inr (200, ''<html></html>'')),
      dl_parsear_html = (\<lambda>_ _ n. if n = ''1'' then Some ej_articulo_1 else None)\<rparr>"

definition ej_descargas_caidas :: boe_descargas where
  \<comment> \<open>the same BOE, unreachable\<close>
  "ej_descargas_caidas = ej_descargas\<lparr>dl_http_get := (\<lambda>_. Inl (Excepcion ''ConnectionError''))\<rparr>"

definition ej_validador :: validador where
  "ej_validador =
     \<lparr>verificar_articulos = True,
      buscar_ley = (\<lambda>_ _ _. Inr (Some ''BOE-A-2015-10565'')),
      boe_downloader = ej_descargas\<rparr>"

definition ej_ref_art999 :: referencia where
  "ej_ref_art999 =
     referencia_vacia\<lparr>texto_completo := Valor ''art. 999 de la Ley 39/2015'',
                      ley := Valor ''Ley 39/2015'', articulo := Valor ''999'',
                      confianza := Valor 95\<rparr>"

lemma ej_info_ley:
  "\<exists>info. extraer_info_ley ej_ref_art999 = Inr (Some info)"
  by (simp add: extraer_info_ley_def ej_ref_art999_def referencia_vacia_def cierto_def
        get_o_def Let_def)

lemma ej_buscar_boe_id: "buscar_boe_id ej_validador info = Some ''BOE-A-2015-10565''"
  by (simp add: buscar_boe_id_def ej_validador_def)

lemma ej_buscar_boe_id_caido:
  "buscar_boe_id (ej_validador\<lparr>boe_downloader := w\<rparr>) info = Some ''BOE-A-2015-10565''"
  by (simp add: buscar_boe_id_def ej_validador_def)

lemma ej_art999_no_existe:
  "\<not> verificar_articulo_existe ej_descargas ''BOE-A-2015-10565'' ''999''"
  by (simp add: verificar_articulo_existe_def descargar_ley_def ej_descargas_def
        lstrip_ceros_def strip_def es_espacio_def Let_def)

lemma descargar_ley_falla:
  assumes "dl_cache w b = None"
      and "dl_http_get w (''https://www.boe.es/buscar/act.php?id='' @ b) = Inl e \<or>
           (\<exists>html. dl_http_get w (''https://www.boe.es/buscar/act.php?id='' @ b) = Inr (st, html)
                   \<and> st \<noteq> 200)"
  shows "descargar_ley w b = None"
  using assms by (auto simp: descargar_ley_def)

lemma verificar_articulo_ausente:
  assumes "descargar_ley w b = Some ley'" "lb_articulos ley' (lstrip_ceros (strip a)) = None"
  shows "\<not> verificar_articulo_existe w b a"
  using assms by (simp add: verificar_articulo_existe_def Let_def)

text \<open>
  Claim C1, amended to what \<open>_validar_referencia\<close> does. The validator never changes the
  confidence of a reference, whatever it finds. When the article is set, a BOE-ID has been
  resolved, article verification is enabled and the BOE lookup says that the article is not
  in the norm, the reference is demoted: \<open>_validada\<close> and
  \<open>_metadata_validacion['validada']\<close> become \<open>False\<close>, the motive is
  \<open>Articulo N NO existe en el BOE oficial\<close>, \<open>articulo_existe_boe\<close> is \<open>False\<close>, the
  resolved \<open>boe_id\<close> stays on the reference and the confidence is the one it came with.
\<close>

theorem C1_validador_no_toca_confianza:
  "(\<forall>r'. validar_referencia v r = Inr r' \<longrightarrow> confianza r' = confianza r) \<and>
   (extraer_info_ley r = Inr (Some info) \<and> buscar_boe_id v info = Some b \<and> b \<noteq> [] \<and>
    articulo r = Valor a \<and> a \<noteq> [] \<and> verificar_articulos v \<and>
    \<not> verificar_articulo_existe (boe_downloader v) b a \<longrightarrow>
    (\<exists>r' m. validar_referencia v r = Inr r' \<and>
            ref_validada r' = Some False \<and>
            ref_metadata_validacion r' = Some m \<and>
            mv_validada m = Some False \<and>
            mv_motivo m = Some (art_i @ a @ '' NO existe en el BOE oficial'') \<and>
            mv_articulo_existe_boe m = Some (Some False) \<and>
            boe_id r' = Valor b \<and>
            confianza r' = confianza r))"
proof (intro conjI allI impI)
  fix r' assume "validar_referencia v r = Inr r'"
  thus "confianza r' = confianza r" by (rule validar_referencia_confianza)
next
  assume h: "extraer_info_ley r = Inr (Some info) \<and> buscar_boe_id v info = Some b \<and> b \<noteq> [] \<and>
    articulo r = Valor a \<and> a \<noteq> [] \<and> verificar_articulos v \<and>
    \<not> verificar_articulo_existe (boe_downloader v) b a"
  show "\<exists>r' m. validar_referencia v r = Inr r' \<and>
            ref_validada r' = Some False \<and>
            ref_metadata_validacion r' = Some m \<and>
            mv_validada m = Some False \<and>
            mv_motivo m = Some (art_i @ a @ '' NO existe en el BOE oficial'') \<and>
            mv_articulo_existe_boe m = Some (Some False) \<and>
            boe_id r' = Valor b \<and>
            confianza r' = confianza r"
    using h by (simp add: validar_articulo_inexistente)
qed

theorem C1_validador_no_toca_confianza_witness:
  "articulo ej_ref_art999 = Valor ''999'' \<and> verificar_articulos ej_validador \<and>
   \<not> verificar_articulo_existe (boe_downloader ej_validador) ''BOE-A-2015-10565'' ''999'' \<and>
   (\<exists>r' m. validar_referencia ej_validador ej_ref_art999 = Inr r' \<and>
           ref_validada r' = Some False \<and>
           ref_metadata_validacion r' = Some m \<and>
           mv_validada m = Some False \<and>
           mv_motivo m = Some (art_i @ ''999'' @ '' NO existe en el BOE oficial'') \<and>
           mv_articulo_existe_boe m = Some (Some False) \<and>
           boe_id r' = Valor ''BOE-A-2015-10565'' \<and>
           confianza r' = confianza ej_ref_art999)"
proof -
  obtain info where i: "extraer_info_ley ej_ref_art999 = Inr (Some info)"
    using ej_info_ley by blast
  have a: "articulo ej_ref_art999 = Valor ''999''"
    by (simp add: ej_ref_art999_def)
  have v: "verificar_articulos ej_validador" by (simp add: ej_validador_def)
  have n: "\<not> verificar_articulo_existe (boe_downloader ej_validador) ''BOE-A-2015-10565'' ''999''"
    using ej_art999_no_existe by (simp add: ej_validador_def)
  have ne: "''BOE-A-2015-10565'' \<noteq> []" "''999'' \<noteq> []" by simp_all
  from C1_validador_no_toca_confianza
         [of ej_validador ej_ref_art999 info "''BOE-A-2015-10565''" "''999''"]
       i ej_buscar_boe_id [of info] a v n ne
  show ?thesis by blast
qed

text \<open>
  Claim C1 as stated fails: article 999 of a law whose only article is 1 is reported absent
  by the BOE lookup, the reference is demoted, and its confidence is still 95, not 0.
\<close>

theorem C1_confianza_intacta_counterexample:
  "articulo ej_ref_art999 = Valor ''999'' \<and> confianza ej_ref_art999 = Valor 95 \<and>
   verificar_articulos ej_validador \<and>
   \<not> verificar_articulo_existe (boe_downloader ej_validador) ''BOE-A-2015-10565'' ''999'' \<and>
   map_sum id ref_validada (validar_referencia ej_validador ej_ref_art999) = Inr (Some False) \<and>
   map_sum id boe_id (validar_referencia ej_validador ej_ref_art999)
     = Inr (Valor ''BOE-A-2015-10565'') \<and>
   map_sum id confianza (validar_referencia ej_validador ej_ref_art999) = Inr (Valor 95)"
proof -
  obtain info where i: "extraer_info_ley ej_ref_art999 = Inr (Some info)"
    using ej_info_ley by blast
  have a: "articulo ej_ref_art999 = Valor ''999''"
    by (simp add: ej_ref_art999_def)
  have v: "verificar_articulos ej_validador" by (simp add: ej_validador_def)
  have n: "\<not> verificar_articulo_existe (boe_downloader ej_validador) ''BOE-A-2015-10565'' ''999''"
    using ej_art999_no_existe by (simp add: ej_validador_def)
  have c: "confianza ej_ref_art999 = Valor 95" by (simp add: ej_ref_art999_def)
  from validar_articulo_inexistente [OF i ej_buscar_boe_id _ a _ v n]
  show ?thesis using a v n c by simp
qed

text \<open>
  Claim C10. When the law is not in the cache and the request to the BOE raises or answers
  with a status other than 200, \<open>descargar_ley\<close> returns \<open>None\<close> and
  \<open>verificar_articulo_existe\<close> returns \<open>False\<close>; the validator then marks the reference
  not validated with the motive \<open>Articulo N NO existe en el BOE oficial\<close>. The validated
  reference is equal, field by field, to the one produced when the law was downloaded and
  does not have the article: the caller cannot tell the two situations apart.
\<close>

theorem C10_descarga_fallida_como_alucinacion:
  assumes "dl_cache (boe_downloader v) b = None"
      and "dl_http_get (boe_downloader v) (''https://www.boe.es/buscar/act.php?id='' @ b) = Inl e \<or>
           (\<exists>html. dl_http_get (boe_downloader v) (''https://www.boe.es/buscar/act.php?id='' @ b)
                      = Inr (st, html) \<and> st \<noteq> 200)"
      and "extraer_info_ley r = Inr (Some info)" "buscar_boe_id v info = Some b" "b \<noteq> []"
      and "articulo r = Valor a" "a \<noteq> []" "verificar_articulos v"
  shows "descargar_ley (boe_downloader v) b = None \<and>
         \<not> verificar_articulo_existe (boe_downloader v) b a \<and>
         (\<exists>r' m. validar_referencia v r = Inr r' \<and>
                 ref_validada r' = Some False \<and>
                 ref_metadata_validacion r' = Some m \<and>
                 mv_validada m = Some False \<and>
                 mv_motivo m = Some (art_i @ a @ '' NO existe en el BOE oficial'')) \<and>
         (\<forall>w ley'. descargar_ley w b = Some ley' \<and>
                    lb_articulos ley' (lstrip_ceros (strip a)) = None \<longrightarrow>
                    validar_referencia (v\<lparr>boe_downloader := w\<rparr>) r = validar_referencia v r)"
proof -
  have d: "descargar_ley (boe_downloader v) b = None"
    using assms(1,2) by (rule descargar_ley_falla)
  hence n: "\<not> verificar_articulo_existe (boe_downloader v) b a"
    by (simp add: verificar_articulo_existe_def)
  note r = validar_articulo_inexistente [OF assms(3,4,5,6,7,8) n]
  have "validar_referencia (v\<lparr>boe_downloader := w\<rparr>) r = validar_referencia v r"
    if "descargar_ley w b = Some ley'" "lb_articulos ley' (lstrip_ceros (strip a)) = None"
    for w ley'
  proof -
    have n': "\<not> verificar_articulo_existe (boe_downloader (v\<lparr>boe_downloader := w\<rparr>)) b a"
      using verificar_articulo_ausente [OF that] by simp
    have b': "buscar_boe_id (v\<lparr>boe_downloader := w\<rparr>) info = Some b"
      using assms(4) by (simp add: buscar_boe_id_def)
    have v': "verificar_articulos (v\<lparr>boe_downloader := w\<rparr>)" using assms(8) by simp
    show ?thesis
      unfolding r validar_articulo_inexistente [OF assms(3) b' assms(5,6,7) v' n'] ..
  qed
  with d n r show ?thesis by simp
qed

theorem C10_descarga_fallida_como_alucinacion_witness:
  "dl_cache ej_descargas_caidas ''BOE-A-2015-10565'' = None \<and>
   dl_http_get ej_descargas_caidas ''https://www.boe.es/buscar/act.php?id=BOE-A-2015-10565''
     = Inl (Excepcion ''ConnectionError'') \<and>
   descargar_ley ej_descargas_caidas ''BOE-A-2015-10565'' = None \<and>
   \<not> verificar_articulo_existe ej_descargas_caidas ''BOE-A-2015-10565'' ''999'' \<and>
   (\<exists>r' m. validar_referencia (ej_validador\<lparr>boe_downloader := ej_descargas_caidas\<rparr>) ej_ref_art999
             = Inr r' \<and>
           ref_validada r' = Some False \<and>
           ref_metadata_validacion r' = Some m \<and>
           mv_validada m = Some False \<and>
           mv_motivo m = Some (art_i @ ''999'' @ '' NO existe en el BOE oficial'')) \<and>
   validar_referencia ej_validador ej_ref_art999
     = validar_referencia (ej_validador\<lparr>boe_downloader := ej_descargas_caidas\<rparr>) ej_ref_art999"
proof -
  obtain info where i: "extraer_info_ley ej_ref_art999 = Inr (Some info)"
    using ej_info_ley by blast
  let ?v = "ej_validador\<lparr>boe_downloader := ej_descargas_caidas\<rparr>"
  have c: "dl_cache (boe_downloader ?v) ''BOE-A-2015-10565'' = None"
    by (simp add: ej_descargas_caidas_def ej_descargas_def)
  have h: "dl_http_get (boe_downloader ?v)
             (''https://www.boe.es/buscar/act.php?id='' @ ''BOE-A-2015-10565'')
           = Inl (Excepcion ''ConnectionError'')"
    by (simp add: ej_descargas_caidas_def)
  have a: "articulo ej_ref_art999 = Valor ''999''"
    by (simp add: ej_ref_art999_def)
  have v: "verificar_articulos ?v" by (simp add: ej_validador_def)
  have d: "descargar_ley ej_descargas ''BOE-A-2015-10565''
           = Some \<lparr>lb_boe_id = ''BOE-A-2015-10565'',
                   lb_articulos = (\<lambda>n. if n = ''1'' then Some ej_articulo_1 else None),
                   lb_cached = False\<rparr>"
    by (simp add: descargar_ley_def ej_descargas_def)
  have l: "lstrip_ceros (strip ''999'') = ''999''"
    by (simp add: lstrip_ceros_def strip_def es_espacio_def)
  have e: "?v\<lparr>boe_downloader := ej_descargas\<rparr> = ej_validador"
    by (simp add: ej_validador_def)
  from C10_descarga_fallida_como_alucinacion
         [of ?v "''BOE-A-2015-10565''" "Excepcion ''ConnectionError''" 0
             ej_ref_art999 info "''999''", OF c _ i ej_buscar_boe_id_caido _ a _ v]
       h
  have t: "descargar_ley (boe_downloader ?v) ''BOE-A-2015-10565'' = None \<and>
         \<not> verificar_articulo_existe (boe_downloader ?v) ''BOE-A-2015-10565'' ''999'' \<and>
         (\<exists>r' m. validar_referencia ?v ej_ref_art999 = Inr r' \<and>
                 ref_validada r' = Some False \<and>
                 ref_metadata_validacion r' = Some m \<and>
                 mv_validada m = Some False \<and>
                 mv_motivo m = Some (art_i @ ''999'' @ '' NO existe en el BOE oficial'')) \<and>
         (\<forall>w ley'. descargar_ley w ''BOE-A-2015-10565'' = Some ley' \<and>
                    lb_articulos ley' (lstrip_ceros (strip ''999'')) = None \<longrightarrow>
                    validar_referencia (?v\<lparr>boe_downloader := w\<rparr>) ej_ref_art999
                      = validar_referencia ?v ej_ref_art999)"
    by simp
  have "validar_referencia (?v\<lparr>boe_downloader := ej_descargas\<rparr>) ej_ref_art999
          = validar_referencia ?v ej_ref_art999"
    using t d l by simp
  hence "validar_referencia ej_validador ej_ref_art999 = validar_referencia ?v ej_ref_art999"
    unfolding e .
  moreover have "dl_cache ej_descargas_caidas ''BOE-A-2015-10565'' = None"
    using c by simp
  moreover have "dl_http_get ej_descargas_caidas
                   ''https://www.boe.es/buscar/act.php?id=BOE-A-2015-10565''
                 = Inl (Excepcion ''ConnectionError'')"
    using h by simp
  ultimately show ?thesis using t by simp
qed

section \<open>The parallel stages of the pipeline\<close>

text \<open>
  \<open>_normalizar_paralelo\<close> and \<open>_validar_paralelo\<close> hand their work to a thread pool and
  collect the futures with \<open>as_completed\<close>. The order in which the futures complete is
  an argument of the model, \<open>completados\<close>: the positions of the submitted futures, each
  once, in the order of their completion. The normaliser of one reference is an argument
  as well; the validator is the one above. Positions come from the list of futures, so an
  index is never out of range.
\<close>

fun normalizar_todas ::
  "(referencia \<Rightarrow> string \<Rightarrow> error + referencia) \<Rightarrow> referencia list \<Rightarrow> string \<Rightarrow>
   error + referencia list" where
  \<comment> \<open>the loop of \<open>NormalizerAgent.procesar\<close>; the first exception leaves it\<close>
  "normalizar_todas normalizar [] contexto = Inr []"
| "normalizar_todas normalizar (r # rs) contexto =
     (case normalizar r contexto of
        Inl e \<Rightarrow> Inl e
      | Inr r' \<Rightarrow>
          (case normalizar_todas normalizar rs contexto of
             Inl e \<Rightarrow> Inl e
           | Inr rs' \<Rightarrow> Inr (r' # rs')))"

fun validar_todas :: "validador \<Rightarrow> referencia list \<Rightarrow> error + referencia list" where
  \<comment> \<open>the loop of \<open>ValidatorAgent.procesar\<close>\<close>
  "validar_todas v [] = Inr []"
| "validar_todas v (r # rs) =
     (case validar_referencia v r of
        Inl e \<Rightarrow> Inl e
      | Inr r' \<Rightarrow>
          (case validar_todas v rs of
             Inl e \<Rightarrow> Inl e
           | Inr rs' \<Rightarrow> Inr (r' # rs')))"

definition procesar_validador :: "validador \<Rightarrow> referencia list \<Rightarrow> error + referencia list" where
  \<comment> \<open>\<open>ValidatorAgent.procesar(...)['referencias_validadas']\<close>; the log line after the loop
      divides by \<open>len(referencias)\<close>\<close>
  "procesar_validador v referencias =
     (case validar_todas v referencias of
        Inl e \<Rightarrow> Inl e
      | Inr referencias_validadas \<Rightarrow>
          if referencias = [] then Inl ZeroDivisionError else Inr referencias_validadas)"

definition trocear :: "nat \<Rightarrow> 'a list \<Rightarrow> 'a list list" where
  \<comment> \<open>\<open>[xs[i:i + n] for i in range(0, len(xs), n)]\<close>, for \<open>n \<ge> 1\<close>\<close>
  "trocear n xs = map (\<lambda>k. take n (drop (k * n) xs)) [0 ..< (length xs + n - 1) div n]"

record pipeline =
  normalizador :: "referencia \<Rightarrow> string \<Rightarrow> error + referencia"
  validador :: validador
  max_workers :: int

definition normalizar_batch :: "pipeline \<Rightarrow> referencia list \<Rightarrow> string \<Rightarrow> error + referencia list" where
  "normalizar_batch p batch contexto = normalizar_todas (normalizador p) batch contexto"

definition normalizar_paralelo ::
  "pipeline \<Rightarrow> nat list \<Rightarrow> referencia list \<Rightarrow> string \<Rightarrow> error + referencia list" where
  \<comment> \<open>\<open>completados\<close> is the order in which \<open>as_completed\<close> hands over the futures,
      each named by the position of its batch\<close>
  "normalizar_paralelo p completados referencias contexto =
     (if length referencias < 5 then normalizar_todas (normalizador p) referencias contexto
      else if max_workers p = 0 then Inl ZeroDivisionError
      else
        (let batch_size = nat (max 1 (int (length referencias) div max_workers p));
             batches = trocear batch_size referencias
         in if max_workers p \<le> 0 then Inl ValueError
            else Inr (concat (map (\<lambda>k. case normalizar_batch p (batches ! k) contexto of
                                          Inl e \<Rightarrow> []
                                        | Inr batch_result \<Rightarrow> batch_result)
                                  completados))))"

definition validar_una :: "pipeline \<Rightarrow> referencia \<Rightarrow> error + referencia" where
  \<comment> \<open>\<open>PipelineOptimizado._validar_referencia\<close>\<close>
  "validar_una p referencia' =
     (case procesar_validador (validador p) [referencia'] of
        Inl e \<Rightarrow> Inl e
      | Inr referencias_validadas \<Rightarrow>
          (case referencias_validadas of [] \<Rightarrow> Inl IndexError | r # _ \<Rightarrow> Inr r))"

definition recoger :: "pipeline \<Rightarrow> referencia list \<Rightarrow> referencia option list \<Rightarrow> nat \<Rightarrow>
   referencia option list" where
  \<comment> \<open>the body of \<open>for future in as_completed(futures)\<close> for the future of position \<open>idx\<close>\<close>
  "recoger p referencias resultados idx =
     (case validar_una p (referencias ! idx) of
        Inr ref_validada' \<Rightarrow> resultados[idx := Some ref_validada']
      | Inl e \<Rightarrow> resultados[idx := Some (referencias ! idx)])"

definition validar_paralelo ::
  "pipeline \<Rightarrow> nat list \<Rightarrow> referencia list \<Rightarrow> error + referencia list" where
  "validar_paralelo p completados referencias =
     (if length referencias < 5 then procesar_validador (validador p) referencias
      else if max_workers p \<le> 0 then Inl ValueError
      else
        (let resultados = foldl (recoger p referencias)
                            (replicate (length referencias) None) completados
         in Inr (concat (map (\<lambda>r. case r of None \<Rightarrow> [] | Some x \<Rightarrow> [x]) resultados))))"

definition ej_normalizar :: "referencia \<Rightarrow> string \<Rightarrow> error + referencia" where
  \<comment> \<open>a normaliser that copies the law into \<open>ley_normalizada\<close>\<close>
  "ej_normalizar r contexto = Inr (r\<lparr>ley_normalizada := ley r\<rparr>)"

definition ej_pipeline :: pipeline where
  "ej_pipeline = \<lparr>normalizador = ej_normalizar, validador = ej_validador, max_workers = 4\<rparr>"

definition ej_ref_art :: "string \<Rightarrow> referencia" where
  "ej_ref_art n =
     ej_ref_art999\<lparr>texto_completo := Valor (''art. '' @ n @ '' de la Ley 39/2015''),
                    articulo := Valor n\<rparr>"

definition ej_referencias :: "referencia list" where
  "ej_referencias = map ej_ref_art [''1'', ''2'', ''3'', ''4'', ''5'']"

lemma recoger_pone:
  "recoger p referencias resultados idx =
     resultados[idx := Some (case validar_una p (referencias ! idx) of
                               Inr r' \<Rightarrow> r' | Inl e \<Rightarrow> referencias ! idx)]"
  by (simp add: recoger_def split: sum.splits)

lemma length_foldl_recoger:
  "length (foldl (recoger p referencias) resultados completados) = length resultados"
  by (induction completados arbitrary: resultados) (simp_all add: recoger_pone)

lemma nth_foldl_recoger:
  "i < length resultados \<Longrightarrow>
   foldl (recoger p referencias) resultados completados ! i =
     (if i \<in> set completados
      then Some (case validar_una p (referencias ! i) of Inr r' \<Rightarrow> r' | Inl e \<Rightarrow> referencias ! i)
      else resultados ! i)"
proof (induction completados arbitrary: resultados rule: rev_induct)
  case Nil
  show ?case by simp
next
  case (snoc idx completados)
  let ?antes = "foldl (recoger p referencias) resultados completados"
  have l: "i < length ?antes"
    using snoc.prems by (simp add: length_foldl_recoger)
  have "foldl (recoger p referencias) resultados (completados @ [idx]) =
          recoger p referencias ?antes idx"
    by simp
  also have "\<dots> ! i =
     (if i = idx
      then Some (case validar_una p (referencias ! i) of Inr r' \<Rightarrow> r' | Inl e \<Rightarrow> referencias ! i)
      else ?antes ! i)"
    using l unfolding recoger_pone by (cases "i = idx") (auto simp: nth_list_update)
  finally show ?case
    using snoc.IH [OF snoc.prems] by simp
qed

lemma concat_presentes:
  "concat (map (\<lambda>r. case r of None \<Rightarrow> [] | Some x \<Rightarrow> [x]) (map (\<lambda>x. Some (f x)) xs)) = map f xs"
  by (induction xs) simp_all

text \<open>
  The validation stage stores each result at the position of its reference, so its output
  does not depend on the order of completion; a reference whose validation raised is kept
  as it was.
\<close>

lemma validar_paralelo_en_orden:
  assumes "5 \<le> length referencias" "0 < max_workers p"
      and "set completados = {..<length referencias}"
  shows "validar_paralelo p completados referencias =
           Inr (map (\<lambda>r. case validar_una p r of Inr r' \<Rightarrow> r' | Inl e \<Rightarrow> r) referencias)"
proof -
  let ?g = "\<lambda>r. case validar_una p r of Inr r' \<Rightarrow> r' | Inl e \<Rightarrow> r"
  let ?res = "foldl (recoger p referencias) (replicate (length referencias) None) completados"
  have "?res = map (\<lambda>r. Some (?g r)) referencias"
  proof (rule nth_equalityI)
    show "length ?res = length (map (\<lambda>r. Some (?g r)) referencias)"
      by (simp add: length_foldl_recoger)
  next
    fix i assume "i < length ?res"
    hence i: "i < length referencias" by (simp add: length_foldl_recoger)
    hence "i \<in> set completados" using assms(3) by simp
    thus "?res ! i = map (\<lambda>r. Some (?g r)) referencias ! i"
      using i by (simp add: nth_foldl_recoger)
  qed
  hence "concat (map (\<lambda>r. case r of None \<Rightarrow> [] | Some x \<Rightarrow> [x]) ?res) = map ?g referencias"
    by (simp only: concat_presentes)
  moreover have "\<not> length referencias < 5" "\<not> max_workers p \<le> 0"
    using assms(1,2) by simp_all
  ultimately show ?thesis
    by (simp only: validar_paralelo_def Let_def if_False)
qed

text \<open>
  Claim C8 at five references with four workers: five batches of one reference, the second
  completing before the first. \<open>_normalizar_paralelo\<close> returns the references in the order
  of completion, which is not the order of the input nor the list that the sequential
  normaliser returns; when the batches complete in the order of submission the two lists
  agree. \<open>_validar_paralelo\<close>, with the same order of completion, returns the list of the
  sequential validator.
\<close>

theorem C8_normalizacion_en_orden_de_llegada:
  "normalizar_paralelo ej_pipeline [1, 0, 2, 3, 4] ej_referencias ''tema'' =
     Inr (map (\<lambda>n. (ej_ref_art n)\<lparr>ley_normalizada := Valor ''Ley 39/2015''\<rparr>)
            [''2'', ''1'', ''3'', ''4'', ''5'']) \<and>
   normalizar_todas (normalizador ej_pipeline) ej_referencias ''tema'' =
     Inr (map (\<lambda>n. (ej_ref_art n)\<lparr>ley_normalizada := Valor ''Ley 39/2015''\<rparr>)
            [''1'', ''2'', ''3'', ''4'', ''5'']) \<and>
   normalizar_paralelo ej_pipeline [1, 0, 2, 3, 4] ej_referencias ''tema'' \<noteq>
     normalizar_todas (normalizador ej_pipeline) ej_referencias ''tema'' \<and>
   normalizar_paralelo ej_pipeline [0, 1, 2, 3, 4] ej_referencias ''tema'' =
     normalizar_todas (normalizador ej_pipeline) ej_referencias ''tema'' \<and>
   validar_paralelo ej_pipeline [1, 0, 2, 3, 4] ej_referencias =
     procesar_validador (validador ej_pipeline) ej_referencias"
  by code_simp

end
